theory Spec2Isabelle
  imports Main "HOL-Library.Monad_Syntax"
begin

section \<open>Machine deployment of flyctl: the lease layer\<close>

text \<open>
  A shallow embedding of \<^verbatim>\<open>internal/command/deploy/machines.go\<close>.
  The flaps client, the clock, the context and the terminal are the environment: a record
  of functions over an environment state \<open>'s\<close>, about which nothing is assumed. Every call
  the code makes to the environment is appended to a trace, so that "no call was issued"
  is a property of the trace.
\<close>

subsection \<open>Errors\<close>

text \<open>
  Go errors. \<open>Canceled\<close> and \<open>DeadlineExceeded\<close> are the two sentinels of package context,
  \<open>ErrorNew\<close> is an error with a message (\<^verbatim>\<open>fmt.Errorf\<close> without \<^verbatim>\<open>%w\<close>), and
  \<open>Wrapf msg e\<close> is \<^verbatim>\<open>fmt.Errorf(msg + "%w", e)\<close>.
\<close>

datatype error =
    Canceled
  | DeadlineExceeded
  | ErrorNew string
  | Wrapf string error

text \<open>\<^verbatim>\<open>errors.Is\<close>: walks the chain of wrapped errors.\<close>

fun errors_Is :: "error \<Rightarrow> error \<Rightarrow> bool" where
  "errors_Is (Wrapf msg e) target = (Wrapf msg e = target \<or> errors_Is e target)"
| "errors_Is e target = (e = target)"

text \<open>
  The result of running a Go function: it returns, or it panics (a nil pointer
  dereference, a write to a nil map). A function that may poll forever returns an
  \<open>option\<close> around this, \<open>None\<close> meaning that it never returns.
\<close>

datatype 'a outcome = Return 'a | Panic string

subsection \<open>Time\<close>

text \<open>
  Instants and durations are counted in nanoseconds; an instant is relative to the Unix
  epoch. \<^verbatim>\<open>time.Time{}\<close> is January 1, year 1; \<^verbatim>\<open>time.Unix(sec, 0)\<close> adds the offset
  between the two epochs in int64 arithmetic, which wraps; \<^verbatim>\<open>Time.Sub\<close> saturates at the
  bounds of \<^verbatim>\<open>time.Duration\<close>.
\<close>

type_synonym instant = int
type_synonym duration = int

definition Second :: duration where
  "Second = 1000000000"

definition Millisecond :: duration where
  "Millisecond = 1000000"

definition unixToInternal :: int where
  "unixToInternal = 62135596800"

definition wrap64 :: "int \<Rightarrow> int" where
  "wrap64 x = (x + 2 ^ 63) mod 2 ^ 64 - 2 ^ 63"

definition zeroTime :: instant where
  "zeroTime = - unixToInternal * Second"

definition time_Unix :: "int \<Rightarrow> instant" where
  "time_Unix sec = (wrap64 (sec + unixToInternal) - unixToInternal) * Second"

definition maxDuration :: duration where
  "maxDuration = 2 ^ 63 - 1"

definition minDuration :: duration where
  "minDuration = - (2 ^ 63)"

definition time_Sub :: "instant \<Rightarrow> instant \<Rightarrow> duration" where
  "time_Sub t u = max minDuration (min maxDuration (t - u))"

subsection \<open>The data of package api that the code reads\<close>

record MachineMount =
  Volume :: string
  Path :: string
  Name :: string

record MachineCheck =
  Interval :: duration

record MachineGuest =
  CPUs :: int
  MemoryMB :: int

record MachineMetrics =
  MetricsPort :: int
  MetricsPath :: string

record MachineService =
  InternalPort :: int
  Protocol :: string

text \<open>
  \<^verbatim>\<open>api.MachineConfig\<close>. \<open>Env\<close> and \<open>Checks\<close> are Go maps whose nil value the code
  distinguishes (a write to a nil map panics, \<^verbatim>\<open>Checks == nil\<close> is tested), so they are
  optional. \<open>Checks\<close> is ranged over, so it is the list of its entries, in the order of the
  iteration. \<open>Metadata\<close> is only read where it may be nil, and a nil map reads as the
  empty one. A nil slice and an empty slice are both \<open>[]\<close>: the code only takes their
  length. \<open>Metrics\<close> and \<open>Guest\<close> are pointers.
\<close>

record MachineConfig =
  Env :: "(string \<rightharpoonup> string) option"
  InitCmd :: "string list"
  Image :: string
  Metadata :: "string \<rightharpoonup> string"
  RestartPolicy :: string
  Services :: "MachineService list"
  Checks :: "(string \<times> MachineCheck) list option"
  Metrics :: "MachineMetrics option"
  Mounts :: "MachineMount list"
  Guest :: "MachineGuest option"

text \<open>The zero value \<^verbatim>\<open>api.MachineConfig{}\<close>.\<close>

definition emptyMachineConfig :: MachineConfig where
  "emptyMachineConfig =
     \<lparr>Env = None, InitCmd = [], Image = [], Metadata = Map.empty, RestartPolicy = [],
      Services = [], Checks = None, Metrics = None, Mounts = [], Guest = None\<rparr>"

record MachineEvent =
  EventType :: string
  ExitCode :: "error + int"

record MachineCheckStatus =
  CheckName :: string
  CheckStatus :: string

text \<open>\<^verbatim>\<open>api.Machine\<close>; \<open>Config\<close> is a pointer and may be nil.\<close>

record Machine =
  ID :: string
  Region :: string
  Config :: "MachineConfig option"
  Events :: "MachineEvent list"
  CheckStatuses :: "MachineCheckStatus list"

record LaunchMachineInput =
  InputID :: string
  InputAppID :: string
  InputOrgSlug :: string
  InputRegion :: string
  InputConfig :: "MachineConfig option"

record MachineLeaseData =
  Nonce :: string
  ExpiresAt :: int

record MachineLease =
  Status :: string
  Code :: string
  Message :: string
  Data :: "MachineLeaseData option"

subsection \<open>The environment\<close>

text \<open>
  A context is the caller's context, a child of a context with a timeout, or the fresh
  context \<^verbatim>\<open>context.WithTimeout(context.TODO(), d)\<close> that \<^verbatim>\<open>ReleaseLeases\<close> substitutes.
\<close>

datatype ctx = Ctx | WithTimeout ctx duration | TodoWithTimeout duration

text \<open>The parameters of a \<^verbatim>\<open>backoff.Backoff\<close> with factor 2 and jitter.\<close>

record backoff =
  backoffMin :: duration
  backoffMax :: duration

datatype event =
    CallUpdate ctx LaunchMachineInput string
  | CallLaunch ctx LaunchMachineInput
  | CallGet ctx string
  | CallWait ctx string string duration
  | CallAcquireLease ctx string duration
  | CallReleaseLease ctx string string
  | Sleep backoff nat
  | ClearLinesAbove nat
  | Log string
  | LogError string error

text \<open>
  What the code uses of package api, which is not part of the sources at hand: its string
  constants, and three methods on the data above.
\<close>

record apiPackage =
  MachineStateStarted :: string
  MachineStateStopped :: string
  MachineProcessGroupApp :: string
  MachineProcessGroupReleaseCommand :: string
  MachineRestartPolicyNo :: string
  MachineFlyPlatformVersion2 :: string
  MachineConfigMetadataKeyFlyPlatformVersion :: string
  MachineConfigMetadataKeyFlyReleaseId :: string
  MachineConfigMetadataKeyFlyReleaseVersion :: string
  MachineConfigMetadataKeyProcessGroup :: string
  MachineConfigMetadataKeyFlyManagedPostgres :: string
  AllPassing :: "Machine \<Rightarrow> bool"
  GetLatestEventOfTypeAfterType :: "Machine \<Rightarrow> string \<Rightarrow> string \<Rightarrow> MachineEvent option"
  GetExitCode :: "MachineEvent \<Rightarrow> error + int"

text \<open>
  The environment. A call that returns \<^verbatim>\<open>(T, error)\<close> is a sum: the client returns a
  usable value exactly when the error is nil. \<open>flapsAcquireLease\<close> receives the duration;
  the client is sent \<^verbatim>\<open>int(duration.Seconds())\<close>. \<open>sleepFor b n\<close> is
  \<^verbatim>\<open>time.Sleep(b.Duration())\<close> at the \<open>n\<close>-th use of the backoff \<open>b\<close>, whose jitter is the
  library's. \<open>schedule n\<close> is the order in which the \<open>n\<close> goroutines of a fan-out run.
\<close>

record 's environment =
  timeNow :: "'s \<Rightarrow> instant \<times> 's"
  ctxErr :: "ctx \<Rightarrow> 's \<Rightarrow> error option"
  flapsUpdate :: "ctx \<Rightarrow> LaunchMachineInput \<Rightarrow> string \<Rightarrow> 's \<Rightarrow> (error + Machine) \<times> 's"
  flapsLaunch :: "ctx \<Rightarrow> LaunchMachineInput \<Rightarrow> 's \<Rightarrow> (error + Machine) \<times> 's"
  flapsGet :: "ctx \<Rightarrow> string \<Rightarrow> 's \<Rightarrow> (error + Machine) \<times> 's"
  flapsWait :: "ctx \<Rightarrow> Machine \<Rightarrow> string \<Rightarrow> duration \<Rightarrow> 's \<Rightarrow> error option \<times> 's"
  flapsAcquireLease :: "ctx \<Rightarrow> string \<Rightarrow> duration \<Rightarrow> 's \<Rightarrow> (error + MachineLease) \<times> 's"
  flapsReleaseLease :: "ctx \<Rightarrow> string \<Rightarrow> string \<Rightarrow> 's \<Rightarrow> error option \<times> 's"
  sleepFor :: "backoff \<Rightarrow> nat \<Rightarrow> 's \<Rightarrow> 's"
  schedule :: "nat \<Rightarrow> 's \<Rightarrow> nat list"
  isInteractive :: bool
  api :: apiPackage

record 's world =
  ext :: 's
  trace :: "event list"

definition emit :: "event \<Rightarrow> 's world \<Rightarrow> 's world" where
  "emit e w = w\<lparr>trace := trace w @ [e]\<rparr>"

definition call :: "event \<Rightarrow> ('s \<Rightarrow> 'a \<times> 's) \<Rightarrow> 's world \<Rightarrow> 'a \<times> 's world" where
  "call e f w = (case f (ext w) of (r, s) \<Rightarrow> (r, \<lparr>ext = s, trace = trace w @ [e]\<rparr>))"

definition now :: "'s environment \<Rightarrow> 's world \<Rightarrow> instant \<times> 's world" where
  "now env w = (case timeNow env (ext w) of (t, s) \<Rightarrow> (t, w\<lparr>ext := s\<rparr>))"

subsection \<open>leasableMachine\<close>

record leasableMachine =
  machine :: Machine
  leaseNonce :: string
  leaseExpiration :: instant

definition NewLeasableMachine :: "Machine \<Rightarrow> leasableMachine" where
  "NewLeasableMachine m = \<lparr>machine = m, leaseNonce = [], leaseExpiration = zeroTime\<rparr>"

text \<open>\<^verbatim>\<open>HasLease\<close>: the clock is read only when the nonce is not empty.\<close>

definition HasLease :: "'s environment \<Rightarrow> leasableMachine \<Rightarrow> 's world \<Rightarrow> bool \<times> 's world" where
  "HasLease env lm w =
     (if leaseNonce lm \<noteq> [] then
        (case now env w of (t, w1) \<Rightarrow> (t < leaseExpiration lm, w1))
      else (False, w))"

definition resetLease :: "leasableMachine \<Rightarrow> leasableMachine" where
  "resetLease lm = lm\<lparr>leaseNonce := [], leaseExpiration := zeroTime\<rparr>"

definition Update ::
  "'s environment \<Rightarrow> ctx \<Rightarrow> LaunchMachineInput \<Rightarrow> leasableMachine \<Rightarrow> 's world
     \<Rightarrow> error option \<times> leasableMachine \<times> 's world" where
  "Update env c input lm w =
     (case HasLease env lm w of
        (False, w1) \<Rightarrow>
          (Some (ErrorNew (''no current lease for machine '' @ ID (machine lm))), lm, w1)
      | (True, w1) \<Rightarrow>
          (case call (CallUpdate c input (leaseNonce lm))
                  (flapsUpdate env c input (leaseNonce lm)) w1 of
             (Inl err, w2) \<Rightarrow> (Some err, lm, w2)
           | (Inr updateMachine, w2) \<Rightarrow> (None, lm\<lparr>machine := updateMachine\<rparr>, w2)))"

definition AcquireLease ::
  "'s environment \<Rightarrow> ctx \<Rightarrow> duration \<Rightarrow> leasableMachine \<Rightarrow> 's world
     \<Rightarrow> error option \<times> leasableMachine \<times> 's world" where
  "AcquireLease env c d lm w =
     (case HasLease env lm w of
        (True, w1) \<Rightarrow> (None, lm, w1)
      | (False, w1) \<Rightarrow>
          (case call (CallAcquireLease c (ID (machine lm)) d)
                  (flapsAcquireLease env c (ID (machine lm)) d) w1 of
             (Inl err, w2) \<Rightarrow> (Some err, lm, w2)
           | (Inr lease, w2) \<Rightarrow>
               if Status lease \<noteq> ''success'' then
                 (Some (ErrorNew (''did not acquire lease for machine '' @ ID (machine lm)
                    @ '' status: '' @ Status lease @ '' code: '' @ Code lease
                    @ '' message: '' @ Message lease)), lm, w2)
               else
                 (case Data lease of
                    None \<Rightarrow>
                      (Some (ErrorNew (''missing data from lease response for machine ''
                         @ ID (machine lm) @ '', assuming not successful'')), lm, w2)
                  | Some dat \<Rightarrow>
                      (None, lm\<lparr>leaseNonce := Nonce dat,
                                 leaseExpiration := time_Unix (ExpiresAt dat)\<rparr>, w2))))"

text \<open>
  \<^verbatim>\<open>ReleaseLease\<close>. \<^verbatim>\<open>time.Since\<close> reads the clock a second time, after the read of
  \<^verbatim>\<open>HasLease\<close>.
\<close>

definition ReleaseLease ::
  "'s environment \<Rightarrow> ctx \<Rightarrow> leasableMachine \<Rightarrow> 's world
     \<Rightarrow> error option \<times> leasableMachine \<times> 's world" where
  "ReleaseLease env c lm w =
     (case HasLease env lm w of
        (False, w1) \<Rightarrow> (None, resetLease lm, w1)
      | (True, w1) \<Rightarrow>
          (case now env w1 of
             (t, w2) \<Rightarrow>
               if time_Sub t (leaseExpiration lm) > 5 * Second then
                 (None, resetLease lm, w2)
               else
                 (case call (CallReleaseLease c (ID (machine lm)) (leaseNonce lm))
                         (flapsReleaseLease env c (ID (machine lm)) (leaseNonce lm)) w2 of
                    (Some err, w3) \<Rightarrow>
                      (Some err, resetLease lm,
                       emit (LogError (''failed to release lease for machine ''
                                         @ ID (machine lm)) err) w3)
                  | (None, w3) \<Rightarrow> (None, resetLease lm, w3))))"

subsection \<open>Polling\<close>

text \<open>
  The body of the \<^verbatim>\<open>for\<close> loop of \<^verbatim>\<open>WaitForState\<close>, under the child context
  \<open>wc\<close>; \<open>n\<close> counts the uses of the backoff. Nothing bounds the number of rounds but
  the answers of the environment, so the loop is a partial function.
\<close>

definition logClearLinesAbove :: "'s environment \<Rightarrow> nat \<Rightarrow> 's world \<Rightarrow> 's world" where
  "logClearLinesAbove env n w = (if isInteractive env then emit (ClearLinesAbove n) w else w)"

definition logStatusWaiting :: "leasableMachine \<Rightarrow> string \<Rightarrow> 's world \<Rightarrow> 's world" where
  "logStatusWaiting lm desired w =
     emit (Log (''  Waiting for '' @ ID (machine lm) @ '' to have state: '' @ desired)) w"

definition logStatusFinished :: "leasableMachine \<Rightarrow> string \<Rightarrow> 's world \<Rightarrow> 's world" where
  "logStatusFinished lm current w =
     emit (Log (''  Machine '' @ ID (machine lm) @ '' has state: '' @ current)) w"

definition sleep :: "'s environment \<Rightarrow> backoff \<Rightarrow> nat \<Rightarrow> 's world \<Rightarrow> 's world" where
  "sleep env b n w = \<lparr>ext = sleepFor env b n (ext w), trace = trace w @ [Sleep b n]\<rparr>"

partial_function (option) WaitForState_poll ::
  "'s environment \<Rightarrow> ctx \<Rightarrow> leasableMachine \<Rightarrow> string \<Rightarrow> duration \<Rightarrow> backoff \<Rightarrow> nat
     \<Rightarrow> 's world \<Rightarrow> (error option \<times> 's world) option" where
  "WaitForState_poll env wc lm desiredState timeout b n w =
     (case call (CallWait wc (ID (machine lm)) desiredState timeout)
             (flapsWait env wc (machine lm) desiredState timeout) w of
        (Some err, w1) \<Rightarrow>
          if errors_Is err Canceled then Some (Some err, w1)
          else if errors_Is err DeadlineExceeded then
            Some (Some (Wrapf (''timeout reached waiting for machine to '' @ desiredState
                                 @ '' '') err), w1)
          else
            WaitForState_poll env wc lm desiredState timeout b (Suc n)
              (sleep env b n w1)
      | (None, w1) \<Rightarrow>
          Some (None, logStatusFinished lm desiredState (logClearLinesAbove env 1 w1)))"

declare WaitForState_poll.simps [code]

definition WaitForState ::
  "'s environment \<Rightarrow> ctx \<Rightarrow> string \<Rightarrow> duration \<Rightarrow> leasableMachine \<Rightarrow> 's world
     \<Rightarrow> (error option \<times> 's world) option" where
  "WaitForState env c desiredState timeout lm w =
     WaitForState_poll env (WithTimeout c timeout) lm desiredState timeout
       \<lparr>backoffMin = 500 * Millisecond, backoffMax = 2 * Second\<rparr> 0
       (logStatusWaiting lm desiredState (logClearLinesAbove env 1 w))"

text \<open>
  \<^verbatim>\<open>WaitForHealthchecksToPass\<close>. \<^verbatim>\<open>shortestInterval / 2\<close> truncates towards zero and
  \<^verbatim>\<open>2 * shortestInterval\<close> is an int64 product.
\<close>

definition logHealthCheckStatus :: "leasableMachine \<Rightarrow> Machine \<Rightarrow> 's world \<Rightarrow> 's world" where
  "logHealthCheckStatus lm updateMachine w =
     emit (Log (''  Waiting for '' @ ID (machine lm) @ '' to become healthy'')) w"

definition shortestInterval :: "(string \<times> MachineCheck) list \<Rightarrow> duration" where
  "shortestInterval checks =
     fold (\<lambda>(name, c) shortest. if Interval c < shortest then Interval c else shortest)
       checks (120 * Second)"

definition half :: "duration \<Rightarrow> duration" where
  "half d = (if 0 \<le> d then d div 2 else - ((- d) div 2))"

definition healthBackoff :: "(string \<times> MachineCheck) list \<Rightarrow> backoff" where
  "healthBackoff checks =
     \<lparr>backoffMin = half (shortestInterval checks),
      backoffMax = wrap64 (2 * shortestInterval checks)\<rparr>"

partial_function (option) WaitForHealthchecksToPass_poll ::
  "'s environment \<Rightarrow> ctx \<Rightarrow> leasableMachine \<Rightarrow> backoff \<Rightarrow> bool \<Rightarrow> nat
     \<Rightarrow> 's world \<Rightarrow> (error option \<times> 's world) option" where
  "WaitForHealthchecksToPass_poll env wc lm b printedFirst n w =
     (case call (CallGet wc (ID (machine lm))) (flapsGet env wc (ID (machine lm))) w of
        (Inl err, w1) \<Rightarrow>
          if errors_Is err Canceled then Some (Some err, w1)
          else if errors_Is err DeadlineExceeded then
            Some (Some (Wrapf (''timeout reached waiting for healthchecks to pass for machine ''
                                 @ ID (machine lm) @ '' '') err), w1)
          else
            Some (Some (Wrapf (''error getting machine '' @ ID (machine lm)
                                 @ '' from api: '') err), w1)
      | (Inr updateMachine, w1) \<Rightarrow>
          if \<not> AllPassing (api env) updateMachine then
            WaitForHealthchecksToPass_poll env wc lm b True (Suc n)
              (sleep env b n
                 (if \<not> printedFirst \<or> isInteractive env then
                    logHealthCheckStatus lm updateMachine (logClearLinesAbove env 1 w1)
                  else w1))
          else
            Some (None, logHealthCheckStatus lm updateMachine (logClearLinesAbove env 1 w1)))"

declare WaitForHealthchecksToPass_poll.simps [code]

definition WaitForHealthchecksToPass ::
  "'s environment \<Rightarrow> ctx \<Rightarrow> duration \<Rightarrow> leasableMachine \<Rightarrow> 's world
     \<Rightarrow> (error option outcome \<times> 's world) option" where
  "WaitForHealthchecksToPass env c timeout lm w =
     (case Config (machine lm) of
        None \<Rightarrow> Some (Panic ''nil pointer dereference'', w)
      | Some conf \<Rightarrow>
          (case Checks conf of
             None \<Rightarrow> Some (Return None, w)
           | Some checks \<Rightarrow>
               map_option (\<lambda>(r, w1). (Return r, w1))
                 (WaitForHealthchecksToPass_poll env (WithTimeout c timeout) lm
                    (healthBackoff checks) False 0 w)))"

text \<open>
  The first \<open>k\<close> rounds of the loop of \<^verbatim>\<open>WaitForHealthchecksToPass\<close>, each of them
  through the case \<^verbatim>\<open>!updateMachine.HealthCheckStatus().AllPassing()\<close>: \<^verbatim>\<open>Get\<close> has
  answered with checks that do not all pass, the status is printed as \<open>printedFirst\<close> and
  the terminal have it, and the round ends with the sleep of the backoff. The value is
  the world in which round \<open>k + 1\<close> starts, and \<open>None\<close> when one of the \<open>k\<close> rounds has
  gone through another case.
\<close>

fun roundsNotPassing ::
  "'s environment \<Rightarrow> ctx \<Rightarrow> leasableMachine \<Rightarrow> backoff \<Rightarrow> bool \<Rightarrow> nat \<Rightarrow> nat \<Rightarrow> 's world
     \<Rightarrow> 's world option" where
  "roundsNotPassing env wc lm b printedFirst n 0 w = Some w"
| "roundsNotPassing env wc lm b printedFirst n (Suc k) w =
     (case call (CallGet wc (ID (machine lm))) (flapsGet env wc (ID (machine lm))) w of
        (Inl err, w1) \<Rightarrow> None
      | (Inr updateMachine, w1) \<Rightarrow>
          if \<not> AllPassing (api env) updateMachine then
            roundsNotPassing env wc lm b True (Suc n) k
              (sleep env b n
                 (if \<not> printedFirst \<or> isInteractive env then
                    logHealthCheckStatus lm updateMachine (logClearLinesAbove env 1 w1)
                  else w1))
          else None)"

text \<open>\<^verbatim>\<open>WaitForEventTypeAfterType\<close>.\<close>

partial_function (option) WaitForEventTypeAfterType_poll ::
  "'s environment \<Rightarrow> ctx \<Rightarrow> leasableMachine \<Rightarrow> string \<Rightarrow> string \<Rightarrow> backoff \<Rightarrow> nat
     \<Rightarrow> 's world \<Rightarrow> ((error + MachineEvent) \<times> 's world) option" where
  "WaitForEventTypeAfterType_poll env wc lm eventType1 eventType2 b n w =
     (case call (CallGet wc (ID (machine lm))) (flapsGet env wc (ID (machine lm))) w of
        (Inl err, w1) \<Rightarrow>
          if errors_Is err Canceled then Some (Inl err, w1)
          else if errors_Is err DeadlineExceeded then
            Some (Inl (Wrapf (''timeout reached waiting for healthchecks to pass for machine ''
                                @ ID (machine lm) @ '' '') err), w1)
          else
            Some (Inl (Wrapf (''error getting machine '' @ ID (machine lm)
                                @ '' from api: '') err), w1)
      | (Inr updateMachine, w1) \<Rightarrow>
          (case GetLatestEventOfTypeAfterType (api env) updateMachine eventType1 eventType2 of
             Some exitEvent \<Rightarrow> Some (Inr exitEvent, w1)
           | None \<Rightarrow>
               WaitForEventTypeAfterType_poll env wc lm eventType1 eventType2 b (Suc n)
                 (sleep env b n w1)))"

declare WaitForEventTypeAfterType_poll.simps [code]

definition WaitForEventTypeAfterType ::
  "'s environment \<Rightarrow> ctx \<Rightarrow> string \<Rightarrow> string \<Rightarrow> duration \<Rightarrow> leasableMachine \<Rightarrow> 's world
     \<Rightarrow> ((error + MachineEvent) \<times> 's world) option" where
  "WaitForEventTypeAfterType env c eventType1 eventType2 timeout lm w =
     WaitForEventTypeAfterType_poll env (WithTimeout c timeout) lm eventType1 eventType2
       \<lparr>backoffMin = 500 * Millisecond, backoffMax = 2 * Second\<rparr> 0
       (emit (Log (''  Waiting for '' @ ID (machine lm) @ '' to get '' @ eventType1 @ '' event''))
          (logClearLinesAbove env 1 w))"

subsection \<open>machineSet\<close>

text \<open>
  A machine set is the list of its members. \<^verbatim>\<open>AcquireLeases\<close> and \<^verbatim>\<open>ReleaseLeases\<close>
  start one goroutine for each member and collect one result from each. A goroutine
  reads and writes its own member only, and makes at most one call to the client; \<open>fanOut\<close>
  runs them one after the other in the order the environment's schedule gives, a list of
  indices into the set, and returns the results in that order, as the channel hands them
  to the collecting loop. The warnings of the collecting loop follow the calls.
\<close>

type_synonym machineSet = "leasableMachine list"

fun fanOut ::
  "(leasableMachine \<Rightarrow> 's world \<Rightarrow> error option \<times> leasableMachine \<times> 's world)
     \<Rightarrow> nat list \<Rightarrow> machineSet \<Rightarrow> 's world \<Rightarrow> error option list \<times> machineSet \<times> 's world" where
  "fanOut f [] ms w = ([], ms, w)"
| "fanOut f (i # order) ms w =
     (if i < length ms then
        (case f (ms ! i) w of
           (r, m, w1) \<Rightarrow>
             (case fanOut f order (ms[i := m]) w1 of
                (rs, ms', w') \<Rightarrow> (r # rs, ms', w')))
      else fanOut f order ms w)"

text \<open>
  \<open>runOnEach f ms order\<close> calls \<open>f\<close> on the members of \<open>ms\<close> at the indices of
  \<open>order\<close>, one call after the other, each call on the member as \<open>ms\<close> has it; it gives
  the results of the calls and the world after the last of them.
\<close>

fun runOnEach ::
  "(leasableMachine \<Rightarrow> 's world \<Rightarrow> error option \<times> leasableMachine \<times> 's world)
     \<Rightarrow> machineSet \<Rightarrow> nat list \<Rightarrow> 's world \<Rightarrow> error option list \<times> 's world" where
  "runOnEach f ms [] w = ([], w)"
| "runOnEach f ms (i # order) w =
     (case f (ms ! i) w of
        (r, m, w1) \<Rightarrow> (case runOnEach f ms order w1 of (rs, w') \<Rightarrow> (r # rs, w')))"

text \<open>A schedule for \<open>n\<close> goroutines runs each of them once.\<close>

definition fair :: "'s environment \<Rightarrow> bool" where
  "fair env = (\<forall>n s. distinct (schedule env n s) \<and> set (schedule env n s) = {..<n})"

definition IsEmpty :: "machineSet \<Rightarrow> bool" where
  "IsEmpty ms = (length ms = 0)"

definition warnAll :: "string \<Rightarrow> error list \<Rightarrow> 's world \<Rightarrow> 's world" where
  "warnAll msg errs w = fold (\<lambda>err. emit (LogError msg err)) errs w"

definition ReleaseLeases ::
  "'s environment \<Rightarrow> ctx \<Rightarrow> machineSet \<Rightarrow> 's world \<Rightarrow> error option \<times> machineSet \<times> 's world" where
  "ReleaseLeases env c ms w =
     (let contextWasAlreadyCanceled =
            (case ctxErr env c (ext w) of None \<Rightarrow> False | Some e \<Rightarrow> errors_Is e Canceled);
          c1 = (if contextWasAlreadyCanceled then TodoWithTimeout (500 * Millisecond) else c);
          w1 = (if contextWasAlreadyCanceled then
                  emit (Log ''detected canceled context and allowing 500ms to release machine leases'') w
                else w)
      in case fanOut (ReleaseLease env c1) (schedule env (length ms) (ext w1)) ms w1 of
           (results, ms', w2) \<Rightarrow>
             let counted = filter (\<lambda>err. \<not> contextWasAlreadyCanceled
                             \<or> \<not> (errors_Is err DeadlineExceeded \<or> errors_Is err Canceled))
                             (List.map_filter id results)
             in (if counted \<noteq> [] then Some (ErrorNew ''error releasing leases on machines'')
                 else None,
                 ms', warnAll ''failed to release lease'' counted w2))"

definition AcquireLeases ::
  "'s environment \<Rightarrow> ctx \<Rightarrow> duration \<Rightarrow> machineSet \<Rightarrow> 's world
     \<Rightarrow> error option \<times> machineSet \<times> 's world" where
  "AcquireLeases env c d ms w =
     (case fanOut (AcquireLease env c d) (schedule env (length ms) (ext w)) ms w of
        (results, ms1, w1) \<Rightarrow>
          let errs = List.map_filter id results;
              w2 = warnAll ''failed to acquire lease'' errs w1
          in if errs \<noteq> [] then
               (case ReleaseLeases env c ms1 w2 of
                  (rel, ms2, w3) \<Rightarrow>
                    (Some (ErrorNew ''error acquiring leases on all machines''), ms2,
                     (case rel of
                        None \<Rightarrow> w3
                      | Some err \<Rightarrow> emit (LogError ''error releasing machine leases'' err) w3)))
             else (None, ms1, w2))"

section \<open>The deployment\<close>

subsection \<open>Strings\<close>

text \<open>\<^verbatim>\<open>strconv.Itoa\<close> and \<^verbatim>\<open>strings.Split(s, " ")\<close>.\<close>

fun Itoa_nat :: "nat \<Rightarrow> string" where
  "Itoa_nat n =
     (if n < 10 then [char_of (48 + n)] else Itoa_nat (n div 10) @ [char_of (48 + n mod 10)])"

declare Itoa_nat.simps [simp del]

definition Itoa :: "int \<Rightarrow> string" where
  "Itoa i = (if i < 0 then CHR ''-'' # Itoa_nat (nat (- i)) else Itoa_nat (nat i))"

fun strings_Split :: "string \<Rightarrow> string list" where
  "strings_Split [] = [[]]"
| "strings_Split (ch # s) =
     (if ch = CHR '' '' then [] # strings_Split s
      else (case strings_Split s of
              [] \<Rightarrow> [[ch]]
            | word # rest \<Rightarrow> (ch # word) # rest))"

text \<open>Reading a key of a Go map of strings: a nil map and a missing key give \<^verbatim>\<open>""\<close>.\<close>

definition lookupEnv :: "(string \<rightharpoonup> string) option \<Rightarrow> string \<Rightarrow> string" where
  "lookupEnv m k = (case m of None \<Rightarrow> [] | Some f \<Rightarrow> (case f k of None \<Rightarrow> [] | Some v \<Rightarrow> v))"

subsection \<open>machineDeployment\<close>

text \<open>
  The fields of \<^verbatim>\<open>machineDeployment\<close> that the deployment reads. The structure is built by
  \<^verbatim>\<open>NewMachineDeployment\<close> only, which fixes what is flattened here: \<open>appName\<close>,
  \<open>appOrgID\<close> and \<open>appIsPostgres\<close> are \<^verbatim>\<open>md.app.Name\<close>, \<^verbatim>\<open>md.app.Organization.ID\<close> and
  \<^verbatim>\<open>md.app.IsPostgresApp()\<close>; \<open>imgTag\<close> is \<^verbatim>\<open>md.img.Tag\<close>, which is read only when
  \<open>restartOnly\<close> is off, when the constructor has checked that the image is there;
  \<open>releaseCommand\<close> is \<^verbatim>\<open>md.appConfig.Deploy.ReleaseCommand\<close> when there is a deploy
  section and empty otherwise. The prefix \<open>appConfig\<close> marks the fields of \<^verbatim>\<open>md.appConfig\<close>.
\<close>

record machineDeployment =
  appName :: string
  appOrgID :: string
  appIsPostgres :: bool
  appConfigPrimaryRegion :: string
  appConfigEnv :: "(string \<rightharpoonup> string) option"
  appConfigMetrics :: "MachineMetrics option"
  imgTag :: string
  machineSet :: machineSet
  releaseCommandMachine :: machineSet
  releaseCommand :: string
  volumeName :: string
  volumeDestination :: string
  appChecksForMachines :: "(string \<times> MachineCheck) list option"
  appServicesForMachines :: "MachineService list"
  strategy :: string
  releaseId :: string
  releaseVersion :: int
  skipHealthChecks :: bool
  restartOnly :: bool
  waitTimeout :: duration
  leaseTimeout :: duration

definition isFlyAppsPlatformMetadata :: "apiPackage \<Rightarrow> string \<Rightarrow> bool" where
  "isFlyAppsPlatformMetadata a key =
     (key = MachineConfigMetadataKeyFlyPlatformVersion a \<or>
      key = MachineConfigMetadataKeyFlyReleaseId a \<or>
      key = MachineConfigMetadataKeyFlyReleaseVersion a \<or>
      key = MachineConfigMetadataKeyProcessGroup a \<or>
      key = MachineConfigMetadataKeyFlyManagedPostgres a)"

definition defaultMachineMetadata ::
  "apiPackage \<Rightarrow> machineDeployment \<Rightarrow> string \<Rightarrow> (string \<rightharpoonup> string)" where
  "defaultMachineMetadata a md processGroup =
     (let res = [MachineConfigMetadataKeyFlyPlatformVersion a \<mapsto> MachineFlyPlatformVersion2 a,
                 MachineConfigMetadataKeyFlyReleaseId a \<mapsto> releaseId md,
                 MachineConfigMetadataKeyFlyReleaseVersion a \<mapsto> Itoa (releaseVersion md),
                 MachineConfigMetadataKeyProcessGroup a \<mapsto> processGroup]
      in if appIsPostgres md then res(MachineConfigMetadataKeyFlyManagedPostgres a \<mapsto> ''true'')
         else res)"

text \<open>
  The loop of \<^verbatim>\<open>resolveUpdatedMachineConfig\<close> that copies into the metadata \<open>target\<close> every
  entry of \<open>source\<close> whose key is not one of the platform's.
\<close>

definition copyUserMetadata ::
  "apiPackage \<Rightarrow> (string \<rightharpoonup> string) \<Rightarrow> (string \<rightharpoonup> string) \<Rightarrow> (string \<rightharpoonup> string)" where
  "copyUserMetadata a source target =
     (\<lambda>k. if \<not> isFlyAppsPlatformMetadata a k \<and> source k \<noteq> None then source k else target k)"

text \<open>
  \<^verbatim>\<open>resolveUpdatedMachineConfig\<close>. The Go code shares objects, and the function returns
  with the input every object it has written to:
  \<^item> in restart-only mode the configuration of the input is the configuration of the
    original machine, the same object, so the new metadata is written to the machine too,
    and the loop that copies the machine's metadata reads the metadata it has just
    replaced;
  \<^item> otherwise the environment of the input is the map \<^verbatim>\<open>md.appConfig.Env\<close> when that is
    not nil, and the write of \<^verbatim>\<open>PRIMARY_REGION\<close> lands in the deployment;
  \<^item> the mounts of the input are the slice of the original machine, so the new mount path
    is written to the machine too.
  The original machine is a pointer: nil is \<open>None\<close>, and reading a field of it panics.
\<close>

definition resolveUpdatedMachineConfig ::
  "apiPackage \<Rightarrow> machineDeployment \<Rightarrow> string \<Rightarrow> Machine option \<Rightarrow> 's world
     \<Rightarrow> (LaunchMachineInput \<times> Machine \<times> machineDeployment) outcome \<times> 's world" where
  "resolveUpdatedMachineConfig a md processGroup origMachineRaw w =
     (case origMachineRaw of
        None \<Rightarrow> (Panic ''nil pointer dereference'', w)
      | Some orig \<Rightarrow>
          (case Config orig of
             None \<Rightarrow> (Panic ''nil pointer dereference'', w)
           | Some origConf \<Rightarrow>
               if restartOnly md then
                 (let conf1 = origConf\<lparr>Metadata := defaultMachineMetadata a md processGroup\<rparr>;
                      conf2 = conf1\<lparr>Metadata := copyUserMetadata a (Metadata conf1) (Metadata conf1)\<rparr>
                  in (Return (\<lparr>InputID = ID orig, InputAppID = appName md,
                                 InputOrgSlug = appOrgID md, InputRegion = Region orig,
                                 InputConfig = Some conf2\<rparr>,
                               orig\<lparr>Config := Some conf2\<rparr>, md), w))
               else
                 (let metadata = copyUserMetadata a (Metadata origConf)
                                   (defaultMachineMetadata a md processGroup);
                      env0 = (case appConfigEnv md of None \<Rightarrow> Map.empty | Some e \<Rightarrow> e);
                      env1 = (if lookupEnv (Some env0) ''PRIMARY_REGION'' = []
                                 \<and> lookupEnv (Env origConf) ''PRIMARY_REGION'' \<noteq> []
                              then env0(''PRIMARY_REGION'' \<mapsto>
                                          lookupEnv (Env origConf) ''PRIMARY_REGION'')
                              else env0);
                      md1 = (if appConfigEnv md = None then md
                             else md\<lparr>appConfigEnv := Some env1\<rparr>);
                      repath = (length (Mounts origConf) = 1
                                  \<and> Path (Mounts origConf ! 0) \<noteq> volumeDestination md);
                      mounts = (if repath
                                then [(Mounts origConf ! 0)\<lparr>Path := volumeDestination md\<rparr>]
                                else Mounts origConf);
                      w1 = (if repath
                            then emit (Log (''Updating the mount path for volume ''
                                             @ Volume (Mounts origConf ! 0) @ '' on machine ''
                                             @ ID orig @ '' from '' @ Path (Mounts origConf ! 0)
                                             @ '' to '' @ volumeDestination md)) w
                            else w);
                      conf = emptyMachineConfig
                               \<lparr>Env := Some env1, InitCmd := [], Image := imgTag md,
                                Metadata := metadata,
                                Services := appServicesForMachines md,
                                Checks := appChecksForMachines md,
                                Metrics := appConfigMetrics md,
                                Mounts := mounts, Guest := Guest origConf\<rparr>
                  in (Return (\<lparr>InputID = ID orig, InputAppID = appName md,
                                 InputOrgSlug = appOrgID md, InputRegion = Region orig,
                                 InputConfig = Some conf\<rparr>,
                               orig\<lparr>Config := Some (origConf\<lparr>Mounts := mounts\<rparr>)\<rparr>, md1), w1))))"

text \<open>
  \<^verbatim>\<open>configureLaunchInputForReleaseCommand\<close>, on an input that
  \<^verbatim>\<open>resolveUpdatedMachineConfig\<close> has returned and with the sharing described there: outside
  restart-only mode the write of \<^verbatim>\<open>RELEASE_COMMAND\<close> lands in \<^verbatim>\<open>md.appConfig.Env\<close> when that
  is not nil. In restart-only mode the configuration written to is the machine's; the
  caller puts it back into the machine.
\<close>

definition configureLaunchInputForReleaseCommand ::
  "apiPackage \<Rightarrow> machineDeployment \<Rightarrow> LaunchMachineInput
     \<Rightarrow> (LaunchMachineInput \<times> machineDeployment) outcome" where
  "configureLaunchInputForReleaseCommand a md launchInput =
     (case InputConfig launchInput of
        None \<Rightarrow> Panic ''nil pointer dereference''
      | Some conf \<Rightarrow>
          (let conf1 = conf\<lparr>InitCmd := strings_Split (releaseCommand md), Services := [],
                            Checks := None, RestartPolicy := MachineRestartPolicyNo a\<rparr>;
               region = (if appConfigPrimaryRegion md \<noteq> [] then appConfigPrimaryRegion md
                         else InputRegion launchInput)
           in case Env conf1 of
                None \<Rightarrow> Panic ''assignment to entry in nil map''
              | Some e \<Rightarrow>
                  (let e1 = (if e ''RELEASE_COMMAND'' = None then e(''RELEASE_COMMAND'' \<mapsto> ''1'')
                             else e)
                   in Return (launchInput\<lparr>InputRegion := region,
                                           InputConfig := Some (conf1\<lparr>Env := Some e1\<rparr>)\<rparr>,
                              if \<not> restartOnly md \<and> appConfigEnv md \<noteq> None
                              then md\<lparr>appConfigEnv := Some e1\<rparr> else md))))"

subsection \<open>The release command\<close>

text \<open>
  A method of the deployment returns its result, the deployment as it has left it, and
  the world. \<open>None\<close> is a wait that never returns.
\<close>

type_synonym ('a, 's) run = "('a outcome \<times> machineDeployment \<times> 's world) option"

definition createReleaseCommandMachine ::
  "'s environment \<Rightarrow> ctx \<Rightarrow> machineDeployment \<Rightarrow> 's world
     \<Rightarrow> error option outcome \<times> machineDeployment \<times> 's world" where
  "createReleaseCommandMachine env c md w =
     (if releaseCommand md = [] \<or> \<not> IsEmpty (releaseCommandMachine md) then (Return None, md, w)
      else
        (case resolveUpdatedMachineConfig (api env) md
                (MachineProcessGroupReleaseCommand (api env)) None w of
           (Panic p, w1) \<Rightarrow> (Panic p, md, w1)
         | (Return (launchInput, orig, md1), w1) \<Rightarrow>
             (case configureLaunchInputForReleaseCommand (api env) md1 launchInput of
                Panic p \<Rightarrow> (Panic p, md1, w1)
              | Return (launchInput1, md2) \<Rightarrow>
                  (case call (CallLaunch c launchInput1) (flapsLaunch env c launchInput1) w1 of
                     (Inl err, w2) \<Rightarrow>
                       (Return (Some (Wrapf ''error creating a release_command machine: '' err)),
                        md2, w2)
                   | (Inr releaseCmdMachine, w2) \<Rightarrow>
                       (Return None,
                        md2\<lparr>releaseCommandMachine := [NewLeasableMachine releaseCmdMachine]\<rparr>,
                        w2)))))"

text \<open>
  \<^verbatim>\<open>updateReleaseCommandMachine\<close>. \<open>updateUnderLease\<close> is its end, from
  \<^verbatim>\<open>AcquireLeases\<close> on: the deferred \<^verbatim>\<open>ReleaseLeases\<close> runs once \<^verbatim>\<open>AcquireLeases\<close> has
  returned, whatever follows, and its error is dropped. The machine updated is the first
  member of the set, the object that \<^verbatim>\<open>AcquireLeases\<close> has written the lease to.
\<close>

definition updateUnderLease ::
  "'s environment \<Rightarrow> ctx \<Rightarrow> machineDeployment \<Rightarrow> LaunchMachineInput \<Rightarrow> machineSet \<Rightarrow> 's world
     \<Rightarrow> error option \<times> machineDeployment \<times> 's world" where
  "updateUnderLease env c md updatedConfig members w =
     (case AcquireLeases env c (leaseTimeout md) members w of
        (acquired, members1, w1) \<Rightarrow>
          (case (case acquired of
                   Some err \<Rightarrow> (Some err, members1, w1)
                 | None \<Rightarrow>
                     (case Update env c updatedConfig (members1 ! 0) w1 of
                        (updated, m, w2) \<Rightarrow>
                          (map_option (Wrapf ''error updating release_command machine: '') updated,
                           members1[0 := m], w2))) of
             (result, members2, w2) \<Rightarrow>
               (case ReleaseLeases env c members2 w2 of
                  (released, members3, w3) \<Rightarrow>
                    (result, md\<lparr>releaseCommandMachine := members3\<rparr>, w3))))"

definition updateReleaseCommandMachine ::
  "'s environment \<Rightarrow> ctx \<Rightarrow> machineDeployment \<Rightarrow> 's world \<Rightarrow> (error option, 's) run" where
  "updateReleaseCommandMachine env c md w =
     (if releaseCommand md = [] then Some (Return None, md, w)
      else
        (case releaseCommandMachine md of
           [] \<Rightarrow>
             Some (Return (Some (ErrorNew
               ''expected release_command machine to exist already, but it does not :-('')), md, w)
         | releaseCmdMachine # others \<Rightarrow>
             do {
               (stopped, w1) \<leftarrow>
                  WaitForState env c (MachineStateStopped (api env)) (waitTimeout md)
                    releaseCmdMachine
                    (emit (Log (''  Updating release_command machine ''
                                  @ ID (machine releaseCmdMachine))) w);
               (case stopped of
                  Some err \<Rightarrow> Some (Return (Some err), md, w1)
                | None \<Rightarrow>
                    (case resolveUpdatedMachineConfig (api env) md
                            (MachineProcessGroupReleaseCommand (api env))
                            (Some (machine releaseCmdMachine)) w1 of
                       (Panic p, w2) \<Rightarrow> Some (Panic p, md, w2)
                     | (Return (updatedConfig, orig, md1), w2) \<Rightarrow>
                         (case configureLaunchInputForReleaseCommand (api env) md1
                                 updatedConfig of
                            Panic p \<Rightarrow> Some (Panic p, md1, w2)
                          | Return (updatedConfig1, md2) \<Rightarrow>
                              (let orig1 = (if restartOnly md
                                            then orig\<lparr>Config := InputConfig updatedConfig1\<rparr>
                                            else orig)
                               in case updateUnderLease env c md2 updatedConfig1
                                         (releaseCmdMachine\<lparr>machine := orig1\<rparr> # others) w2 of
                                    (result, md3, w3) \<Rightarrow> Some (Return result, md3, w3)))))
             }))"

definition createOrUpdateReleaseCmdMachine ::
  "'s environment \<Rightarrow> ctx \<Rightarrow> machineDeployment \<Rightarrow> 's world \<Rightarrow> (error option, 's) run" where
  "createOrUpdateReleaseCmdMachine env c md w =
     (if IsEmpty (releaseCommandMachine md) then Some (createReleaseCommandMachine env c md w)
      else updateReleaseCommandMachine env c md w)"

text \<open>
  \<^verbatim>\<open>runReleaseCommand\<close>, in two parts: \<open>releaseCommandExitCode\<close> is the body from the first
  message to the reading of the exit code, and returns the machine that ran the command
  with its exit code; \<open>runReleaseCommand\<close> is the guard before it and the test of the
  exit code after it.
\<close>

definition releaseCommandExitCode ::
  "'s environment \<Rightarrow> ctx \<Rightarrow> machineDeployment \<Rightarrow> 's world
     \<Rightarrow> (error + leasableMachine \<times> int, 's) run" where
  "releaseCommandExitCode env c md w =
     do {
       (created, md1, w1) \<leftarrow>
          createOrUpdateReleaseCmdMachine env c md
            (emit (Log (''Running '' @ appName md @ '' release_command: '' @ releaseCommand md)) w);
       (case created of
          Panic p \<Rightarrow> Some (Panic p, md1, w1)
        | Return (Some err) \<Rightarrow>
            Some (Return (Inl (Wrapf ''error running release_command machine: '' err)), md1, w1)
        | Return None \<Rightarrow>
            (case releaseCommandMachine md1 of
               [] \<Rightarrow> Some (Panic ''index out of range'', md1, w1)
             | releaseCmdMachine # others \<Rightarrow>
                 do {
                   (started, w2) \<leftarrow>
                      WaitForState env c (MachineStateStarted (api env)) (waitTimeout md1)
                        releaseCmdMachine w1;
                   (case started of
                      Some err \<Rightarrow>
                        Some (Return (Inl (Wrapf (''error waiting for release_command machine ''
                                @ ID (machine releaseCmdMachine) @ '' to start: '') err)), md1, w2)
                    | None \<Rightarrow>
                        do {
                          (stopped, w3) \<leftarrow>
                             WaitForState env c (MachineStateStopped (api env)) (waitTimeout md1)
                               releaseCmdMachine w2;
                          (case stopped of
                             Some err \<Rightarrow>
                               Some (Return (Inl (Wrapf
                                       (''error waiting for release_command machine ''
                                          @ ID (machine releaseCmdMachine)
                                          @ '' to finish running: '') err)), md1, w3)
                           | None \<Rightarrow>
                               do {
                                 (lastExitEvent, w4) \<leftarrow>
                                    WaitForEventTypeAfterType env c ''exit'' ''start''
                                      (waitTimeout md1) releaseCmdMachine w3;
                                 (case lastExitEvent of
                                    Inl err \<Rightarrow>
                                      Some (Return (Inl (Wrapf
                                              (''error finding the release_command machine ''
                                                 @ ID (machine releaseCmdMachine)
                                                 @ '' exit event: '') err)), md1, w4)
                                  | Inr ev \<Rightarrow>
                                      (case GetExitCode (api env) ev of
                                         Inl err \<Rightarrow>
                                           Some (Return (Inl (Wrapf
                                                   (''error get release_command machine ''
                                                      @ ID (machine releaseCmdMachine)
                                                      @ '' exit code: '') err)), md1, w4)
                                       | Inr exitCode \<Rightarrow>
                                           Some (Return (Inr (releaseCmdMachine, exitCode)),
                                                 md1, w4)))
                               })
                        })
                 }))
     }"

definition runReleaseCommand ::
  "'s environment \<Rightarrow> ctx \<Rightarrow> machineDeployment \<Rightarrow> 's world \<Rightarrow> (error option, 's) run" where
  "runReleaseCommand env c md w =
     (if releaseCommand md = [] \<or> IsEmpty (releaseCommandMachine md) \<or> restartOnly md
      then Some (Return None, md, w)
      else
        do {
          (ran, md1, w1) \<leftarrow> releaseCommandExitCode env c md w;
          (case ran of
             Panic p \<Rightarrow> Some (Panic p, md1, w1)
           | Return (Inl err) \<Rightarrow> Some (Return (Some err), md1, w1)
           | Return (Inr (releaseCmdMachine, exitCode)) \<Rightarrow>
               if exitCode \<noteq> 0 then
                 Some (Return (Some (ErrorNew (''error release_command machine ''
                          @ ID (machine releaseCmdMachine)
                          @ '' exited with non-zero status of '' @ Itoa exitCode))),
                       md1,
                       emit (Log (''Error release_command failed running on machine ''
                                    @ ID (machine releaseCmdMachine) @ '' with exit code ''
                                    @ Itoa exitCode)) w1)
               else
                 Some (Return None, md1,
                       emit (Log (''  release_command '' @ ID (machine releaseCmdMachine)
                                    @ '' completed successfully''))
                         (logClearLinesAbove env 1 w1)))
        })"

subsection \<open>The rollout\<close>

text \<open>
  The two waits that follow the update of a machine, in \<^verbatim>\<open>DeployMachinesApp\<close> and in
  \<^verbatim>\<open>createOneMachine\<close> alike: unless the strategy is immediate, wait for the machine to
  be started and, unless health checks are skipped, for its health checks.
\<close>

definition waitForMachine ::
  "'s environment \<Rightarrow> ctx \<Rightarrow> machineDeployment \<Rightarrow> leasableMachine \<Rightarrow> 's world
     \<Rightarrow> (error option outcome \<times> 's world) option" where
  "waitForMachine env c md m w =
     (if strategy md \<noteq> ''immediate'' then
        do {
          (started, w1) \<leftarrow>
             WaitForState env c (MachineStateStarted (api env)) (waitTimeout md) m w;
          (case started of
             Some err \<Rightarrow> Some (Return (Some err), w1)
           | None \<Rightarrow>
               if \<not> skipHealthChecks md then
                 WaitForHealthchecksToPass env c (waitTimeout md) m w1
               else Some (Return None, w1))
        }
      else Some (Return None, w))"

text \<open>
  \<^verbatim>\<open>createOneMachine\<close>. It resolves the configuration of no machine: the original
  machine it passes is nil.
\<close>

definition createOneMachine ::
  "'s environment \<Rightarrow> ctx \<Rightarrow> machineDeployment \<Rightarrow> 's world \<Rightarrow> (error option, 's) run" where
  "createOneMachine env c md w =
     (case resolveUpdatedMachineConfig (api env) md
             (MachineProcessGroupReleaseCommand (api env)) None
             (emit (Log (''No machines in '' @ appName md @ '' app, launching one new machine'')) w) of
        (Panic p, w1) \<Rightarrow> Some (Panic p, md, w1)
      | (Return (launchInput, orig, md1), w1) \<Rightarrow>
          (case call (CallLaunch c launchInput) (flapsLaunch env c launchInput) w1 of
             (Inl err, w2) \<Rightarrow>
               Some (Return (Some (Wrapf ''error creating a new machine machine: '' err)), md1, w2)
           | (Inr newMachineRaw, w2) \<Rightarrow>
               do {
                 (waited, w3) \<leftarrow>
                    waitForMachine env c md1 (NewLeasableMachine newMachineRaw)
                      (emit (Log (''No machines in '' @ appName md1
                                    @ '' app, launching one new machine'')) w2);
                 (case waited of
                    Return None \<Rightarrow> Some (Return None, md1, emit (Log ''  Finished deploying'') w3)
                  | r \<Rightarrow> Some (r, md1, w3))
               }))"

text \<open>
  The loop of \<^verbatim>\<open>DeployMachinesApp\<close> over the members of the machine set, by their
  indices. A member is an object that the loop writes to, so each round puts the member
  back into the set of the deployment.
\<close>

fun updateMachines ::
  "'s environment \<Rightarrow> ctx \<Rightarrow> nat list \<Rightarrow> machineDeployment \<Rightarrow> 's world \<Rightarrow> (error option, 's) run" where
  "updateMachines env c [] md w = Some (Return None, md, w)"
| "updateMachines env c (i # later) md w =
     (if i < length (machineSet md) then
        (case resolveUpdatedMachineConfig (api env) md (MachineProcessGroupApp (api env))
                (Some (machine (machineSet md ! i))) w of
           (Panic p, w1) \<Rightarrow> Some (Panic p, md, w1)
         | (Return (launchInput, orig, md1), w1) \<Rightarrow>
             (case Update env c launchInput ((machineSet md ! i)\<lparr>machine := orig\<rparr>)
                     (emit (Log (''  Updating '' @ ID orig)) w1) of
                (updated, m, w2) \<Rightarrow>
                  (let md2 = md1\<lparr>machineSet := (machineSet md1)[i := m]\<rparr>
                   in if updated \<noteq> None \<and> strategy md2 \<noteq> ''immediate'' then
                        Some (Return updated, md2, w2)
                      else
                        do {
                          (waited, w3) \<leftarrow>
                             waitForMachine env c md2 m
                               (case updated of
                                  None \<Rightarrow> w2
                                | Some err \<Rightarrow> emit (LogError ''Continuing after error'' err) w2);
                          (case waited of
                             Return None \<Rightarrow> updateMachines env c later md2 w3
                           | r \<Rightarrow> Some (r, md2, w3))
                        })))
      else updateMachines env c later md w)"

text \<open>
  \<^verbatim>\<open>DeployMachinesApp\<close>. \<open>releaseLeasesDeferred\<close> is the deferred function, which runs
  when the function returns or panics after \<^verbatim>\<open>AcquireLeases\<close>.
\<close>

definition releaseLeasesDeferred ::
  "'s environment \<Rightarrow> ctx \<Rightarrow> error option outcome \<times> machineDeployment \<times> 's world
     \<Rightarrow> error option outcome \<times> machineDeployment \<times> 's world" where
  "releaseLeasesDeferred env c res =
     (case res of
        (r, md, w) \<Rightarrow>
          (case ReleaseLeases env c (machineSet md) w of
             (released, ms, w1) \<Rightarrow>
               (r, md\<lparr>machineSet := ms\<rparr>,
                (case released of
                   None \<Rightarrow> w1
                 | Some err \<Rightarrow> emit (LogError ''error releasing leases on machines'' err) w1))))"

definition DeployMachinesApp ::
  "'s environment \<Rightarrow> ctx \<Rightarrow> machineDeployment \<Rightarrow> 's world \<Rightarrow> (error option, 's) run" where
  "DeployMachinesApp env c md w =
     do {
       (released, md1, w1) \<leftarrow> runReleaseCommand env c md w;
       (case released of
          Panic p \<Rightarrow> Some (Panic p, md1, w1)
        | Return (Some err) \<Rightarrow>
            Some (Return (Some (Wrapf ''release command failed - aborting deployment. '' err)),
                  md1, w1)
        | Return None \<Rightarrow>
            if IsEmpty (machineSet md1) then createOneMachine env c md1 w1
            else
              (case AcquireLeases env c (leaseTimeout md1) (machineSet md1) w1 of
                 (acquired, ms, w2) \<Rightarrow>
                   map_option (releaseLeasesDeferred env c)
                     (case acquired of
                        Some err \<Rightarrow> Some (Return (Some err), md1\<lparr>machineSet := ms\<rparr>, w2)
                      | None \<Rightarrow>
                          do {
                            (r, md2, w3) \<leftarrow>
                               updateMachines env c [0..<length ms] (md1\<lparr>machineSet := ms\<rparr>)
                                 (emit (Log (''Deploying '' @ appName md1 @ '' app with ''
                                               @ strategy md1 @ '' strategy'')) w2);
                            (case r of
                               Return None \<Rightarrow>
                                 Some (Return None, md2, emit (Log ''  Finished deploying'') w3)
                             | _ \<Rightarrow> Some (r, md2, w3))
                          })))
     }"

subsection \<open>What a run has called\<close>

text \<open>
  \<open>extends P w w'\<close>: the trace of \<open>w'\<close> is the trace of \<open>w\<close> followed by events that all
  satisfy \<open>P\<close>. An event spares the machines outside \<open>ids\<close> when it is not a launch, and
  not the update or the acquisition of a lease of a machine whose id is outside \<open>ids\<close>.
\<close>

definition spares :: "string set \<Rightarrow> event \<Rightarrow> bool" where
  "spares ids e =
     (case e of
        CallUpdate c input nonce \<Rightarrow> InputID input \<in> ids
      | CallAcquireLease c i d \<Rightarrow> i \<in> ids
      | CallLaunch c input \<Rightarrow> False
      | _ \<Rightarrow> True)"

definition extends :: "(event \<Rightarrow> bool) \<Rightarrow> 's world \<Rightarrow> 's world \<Rightarrow> bool" where
  "extends P w w' = (\<exists>new. trace w' = trace w @ new \<and> list_all P new)"

section \<open>A sample environment\<close>

text \<open>
  An environment to run the definitions in. Its state is the clock, the time that passes
  at each reading of the clock, the number of \<^verbatim>\<open>Get\<close> calls that are still to fail, and
  the number of \<^verbatim>\<open>Get\<close> calls, before those, that are still to answer with a check that
  does not pass.
  A lease is granted for
  every machine but \<open>locked\<close>; the update of machine \<open>m2\<close> fails, and so does the release of
  the lease of machine \<open>stuck\<close>; machine \<open>rc7\<close> reports the exit code 7 and every other machine
  the exit code 0.
\<close>

record sampleState =
  clock :: instant
  tick :: duration
  failingGets :: nat
  unhealthyGets :: nat

definition sampleApi :: apiPackage where
  "sampleApi =
     \<lparr>MachineStateStarted = ''started'',
      MachineStateStopped = ''stopped'',
      MachineProcessGroupApp = ''app'',
      MachineProcessGroupReleaseCommand = ''release_command'',
      MachineRestartPolicyNo = ''no'',
      MachineFlyPlatformVersion2 = ''v2'',
      MachineConfigMetadataKeyFlyPlatformVersion = ''fly_platform_version'',
      MachineConfigMetadataKeyFlyReleaseId = ''fly_release_id'',
      MachineConfigMetadataKeyFlyReleaseVersion = ''fly_release_version'',
      MachineConfigMetadataKeyProcessGroup = ''process_group'',
      MachineConfigMetadataKeyFlyManagedPostgres = ''fly-managed-postgres'',
      AllPassing = (\<lambda>m. list_all (\<lambda>st. CheckStatus st = ''passing'') (CheckStatuses m)),
      GetLatestEventOfTypeAfterType = (\<lambda>m t1 t2. find (\<lambda>ev. EventType ev = t1) (Events m)),
      GetExitCode = ExitCode\<rparr>"

definition sampleConfig :: MachineConfig where
  "sampleConfig =
     \<lparr>Env = Some [''PRIMARY_REGION'' \<mapsto> ''ams''], InitCmd = [''/start''], Image = ''app:v1'',
      Metadata = [''process_group'' \<mapsto> ''app'', ''owner'' \<mapsto> ''ops''], RestartPolicy = ''always'',
      Services = [\<lparr>InternalPort = 8080, Protocol = ''tcp''\<rparr>],
      Checks = None, Metrics = None,
      Mounts = [\<lparr>Volume = ''vol_1'', Path = ''/data'', Name = ''data''\<rparr>],
      Guest = Some \<lparr>CPUs = 1, MemoryMB = 256\<rparr>\<rparr>"

definition sampleMachine :: "string \<Rightarrow> Machine" where
  "sampleMachine i =
     \<lparr>ID = i, Region = ''ams'', Config = Some sampleConfig,
      Events = [\<lparr>EventType = ''exit'', ExitCode = Inr (if i = ''rc7'' then 7 else 0)\<rparr>],
      CheckStatuses = []\<rparr>"

definition sampleEnv :: "sampleState environment" where
  "sampleEnv =
     \<lparr>timeNow = (\<lambda>s. (clock s, s\<lparr>clock := clock s + tick s\<rparr>)),
      ctxErr = (\<lambda>c s. None),
      flapsUpdate = (\<lambda>c input nonce s.
         (if InputID input = ''m2'' then Inl (ErrorNew ''machine is busy'')
          else Inr ((sampleMachine (InputID input))\<lparr>Config := InputConfig input\<rparr>), s)),
      flapsLaunch = (\<lambda>c input s. (Inr ((sampleMachine ''new'')\<lparr>Config := InputConfig input\<rparr>), s)),
      flapsGet = (\<lambda>c i s.
         if 0 < unhealthyGets s then
           (Inr ((sampleMachine i)
                   \<lparr>CheckStatuses := [\<lparr>CheckName = ''chk-http'', CheckStatus = ''critical''\<rparr>]\<rparr>),
            s\<lparr>unhealthyGets := unhealthyGets s - 1\<rparr>)
         else if 0 < failingGets s then
           (Inl (ErrorNew ''connection reset''), s\<lparr>failingGets := failingGets s - 1\<rparr>)
         else (Inr (sampleMachine i), s)),
      flapsWait = (\<lambda>c m st d s. (None, s)),
      flapsAcquireLease = (\<lambda>c i d s.
         (if i = ''locked'' then Inl (ErrorNew ''machine is leased'')
          else Inr \<lparr>Status = ''success'', Code = [], Message = [],
                    Data = Some \<lparr>Nonce = ''nonce-'' @ i, ExpiresAt = 1800\<rparr>\<rparr>, s)),
      flapsReleaseLease = (\<lambda>c i nonce s.
         (if i = ''stuck'' then Some (ErrorNew ''lease not found'') else None, s)),
      sleepFor = (\<lambda>b n s. s),
      schedule = (\<lambda>n s. rev [0..<n]),
      isInteractive = False,
      api = sampleApi\<rparr>"

definition sampleWorld :: "sampleState world" where
  "sampleWorld = \<lparr>ext = \<lparr>clock = 0, tick = 0, failingGets = 0, unhealthyGets = 0\<rparr>, trace = []\<rparr>"

definition sampleInput :: LaunchMachineInput where
  "sampleInput =
     \<lparr>InputID = ''m1'', InputAppID = ''shop'', InputOrgSlug = ''org'', InputRegion = ''ams'',
      InputConfig = Some sampleConfig\<rparr>"

definition sampleLeased :: "string \<Rightarrow> leasableMachine" where
  "sampleLeased i =
     \<lparr>machine = sampleMachine i, leaseNonce = ''nonce-'' @ i,
      leaseExpiration = time_Unix 1800\<rparr>"

definition sampleDeployment :: machineDeployment where
  "sampleDeployment =
     \<lparr>appName = ''shop'', appOrgID = ''org'', appIsPostgres = False,
      appConfigPrimaryRegion = ''ams'', appConfigEnv = Some Map.empty, appConfigMetrics = None,
      imgTag = ''app:v2'',
      machineSet = map (\<lambda>i. NewLeasableMachine (sampleMachine i)) [''m1'', ''m2'', ''m3''],
      releaseCommandMachine = [],
      releaseCommand = [], volumeName = ''data'', volumeDestination = ''/data'',
      appChecksForMachines = Some [], appServicesForMachines = [],
      strategy = ''rolling'', releaseId = ''rel_1'', releaseVersion = 2,
      skipHealthChecks = False, restartOnly = False,
      waitTimeout = 120 * Second, leaseTimeout = 1800 * Second\<rparr>"

definition sampleSet :: "string list \<Rightarrow> machineSet" where
  "sampleSet ids = map (\<lambda>i. NewLeasableMachine (sampleMachine i)) ids"

definition sampleChecked :: leasableMachine where
  "sampleChecked =
     NewLeasableMachine ((sampleMachine ''m1'')
       \<lparr>Config := Some (sampleConfig\<lparr>Checks := Some [(''chk-http'', \<lparr>Interval = 10 * Second\<rparr>)]\<rparr>)\<rparr>)"

definition sampleFleet :: "string \<Rightarrow> machineDeployment" where
  "sampleFleet s =
     sampleDeployment\<lparr>machineSet := map sampleLeased [''m1'', ''m2'', ''m3''], strategy := s\<rparr>"

definition updatedIDs :: "event list \<Rightarrow> string list" where
  "updatedIDs evs =
     concat (map (\<lambda>e. case e of CallUpdate c input nonce \<Rightarrow> [InputID input] | _ \<Rightarrow> []) evs)"

definition releasedIDs :: "event list \<Rightarrow> string list" where
  "releasedIDs evs =
     concat (map (\<lambda>e. case e of CallReleaseLease c i nonce \<Rightarrow> [i] | _ \<Rightarrow> []) evs)"

definition sampleRelease :: machineDeployment where
  "sampleRelease =
     sampleDeployment\<lparr>releaseCommand := ''bin/migrate'',
       releaseCommandMachine := [NewLeasableMachine (sampleMachine ''rc7'')]\<rparr>"

section \<open>Properties of the lease layer\<close>

lemmas sample_defs =
  sampleEnv_def sampleWorld_def sampleLeased_def sampleMachine_def sampleInput_def
  NewLeasableMachine_def time_Unix_def wrap64_def unixToInternal_def zeroTime_def
  Second_def Millisecond_def

lemma sampleEnv_sel:
  "timeNow sampleEnv = (\<lambda>s. (clock s, s\<lparr>clock := clock s + tick s\<rparr>))"
  "ctxErr sampleEnv = (\<lambda>c s. None)"
  "flapsUpdate sampleEnv = (\<lambda>c input nonce s.
         (if InputID input = ''m2'' then Inl (ErrorNew ''machine is busy'')
          else Inr ((sampleMachine (InputID input))\<lparr>Config := InputConfig input\<rparr>), s))"
  "flapsLaunch sampleEnv =
     (\<lambda>c input s. (Inr ((sampleMachine ''new'')\<lparr>Config := InputConfig input\<rparr>), s))"
  "flapsGet sampleEnv = (\<lambda>c i s.
         if 0 < unhealthyGets s then
           (Inr ((sampleMachine i)
                   \<lparr>CheckStatuses := [\<lparr>CheckName = ''chk-http'', CheckStatus = ''critical''\<rparr>]\<rparr>),
            s\<lparr>unhealthyGets := unhealthyGets s - 1\<rparr>)
         else if 0 < failingGets s then
           (Inl (ErrorNew ''connection reset''), s\<lparr>failingGets := failingGets s - 1\<rparr>)
         else (Inr (sampleMachine i), s))"
  "flapsWait sampleEnv = (\<lambda>c m st d s. (None, s))"
  "flapsAcquireLease sampleEnv = (\<lambda>c i d s.
         (if i = ''locked'' then Inl (ErrorNew ''machine is leased'')
          else Inr \<lparr>Status = ''success'', Code = [], Message = [],
                    Data = Some \<lparr>Nonce = ''nonce-'' @ i, ExpiresAt = 1800\<rparr>\<rparr>, s))"
  "flapsReleaseLease sampleEnv = (\<lambda>c i nonce s.
         (if i = ''stuck'' then Some (ErrorNew ''lease not found'') else None, s))"
  "sleepFor sampleEnv = (\<lambda>b n s. s)"
  "schedule sampleEnv = (\<lambda>n s. rev [0..<n])"
  "isInteractive sampleEnv = False"
  "api sampleEnv = sampleApi"
  by (simp_all add: sampleEnv_def)

lemma HasLease_trace [simp]: "trace (snd (HasLease env lm w)) = trace w"
  by (simp add: HasLease_def now_def split: prod.splits)

lemma HasLease_reset [simp]: "HasLease env (resetLease lm) w = (False, w)"
  by (simp add: HasLease_def resetLease_def)

lemma time_Sub_tolerance: "5 * Second < time_Sub t u \<longleftrightarrow> 5 * Second < t - u"
  by (auto simp: time_Sub_def Second_def minDuration_def maxDuration_def)

lemma Second_pos: "0 < Second"
  by (simp add: Second_def)

lemma ReleaseLease_resets: "fst (snd (ReleaseLease env c lm w)) = resetLease lm"
  by (simp add: ReleaseLease_def split: prod.splits bool.splits option.splits)

lemma resetLease_idem: "resetLease (resetLease m) = resetLease m"
  by (simp add: resetLease_def)

text \<open>
  C3. \<^verbatim>\<open>Update\<close> without a lease returns the error "no current lease" and leaves the
  machine and the trace as they are: the client is not called. With a lease, the one call
  made is the update of the client with the nonce of the lease; when it succeeds the
  machine of the response replaces the local one, and when it fails its error is returned
  and the local machine stays.
\<close>

theorem Update_requires_lease:
  "(\<not> fst (HasLease env lm w) \<longrightarrow>
      Update env c input lm w =
        (Some (ErrorNew (''no current lease for machine '' @ ID (machine lm))), lm,
         snd (HasLease env lm w))
      \<and> trace (snd (snd (Update env c input lm w))) = trace w)
   \<and> (fst (HasLease env lm w) \<longrightarrow>
        (case flapsUpdate env c input (leaseNonce lm) (ext (snd (HasLease env lm w))) of
           (r, s) \<Rightarrow>
             Update env c input lm w =
               ((case r of Inl err \<Rightarrow> Some err | Inr updateMachine \<Rightarrow> None),
                (case r of Inl err \<Rightarrow> lm | Inr updateMachine \<Rightarrow> lm\<lparr>machine := updateMachine\<rparr>),
                \<lparr>ext = s, trace = trace w @ [CallUpdate c input (leaseNonce lm)]\<rparr>)))"
  by (cases "HasLease env lm w")
     (auto simp: Update_def call_def split: prod.splits sum.splits
           dest: arg_cong [where f = "\<lambda>p. trace (snd p)"])

theorem Update_requires_lease_witness:
  "\<not> fst (HasLease sampleEnv (NewLeasableMachine (sampleMachine ''m1'')) sampleWorld)
   \<and> Update sampleEnv Ctx sampleInput (NewLeasableMachine (sampleMachine ''m1'')) sampleWorld =
       (Some (ErrorNew ''no current lease for machine m1''),
        NewLeasableMachine (sampleMachine ''m1''), sampleWorld)
   \<and> fst (HasLease sampleEnv (sampleLeased ''m1'') sampleWorld)
   \<and> Update sampleEnv Ctx sampleInput (sampleLeased ''m1'') sampleWorld =
       (None, (sampleLeased ''m1'')\<lparr>machine := sampleMachine ''m1''\<rparr>,
        sampleWorld\<lparr>trace := [CallUpdate Ctx sampleInput ''nonce-m1'']\<rparr>)"
  using Update_requires_lease [of sampleEnv "NewLeasableMachine (sampleMachine ''m1'')" sampleWorld
          Ctx sampleInput]
        Update_requires_lease [of sampleEnv "sampleLeased ''m1''" sampleWorld Ctx sampleInput]
  by (simp add: HasLease_def now_def sample_defs)

text \<open>
  C7. With \<open>t1\<close> the clock when \<^verbatim>\<open>HasLease\<close> reads it and \<open>t2\<close> the clock when
  \<^verbatim>\<open>time.Since\<close> reads it: \<^verbatim>\<open>ReleaseLease\<close> returns nil, clears the lease and calls
  nothing when the nonce is empty, when the lease has expired at \<open>t1\<close> (so also when it
  expired more than five seconds before), and when it is found at \<open>t2\<close> to have expired
  more than five seconds before. When the lease has not expired at \<open>t1\<close> and is not more
  than five seconds past its expiry at \<open>t2\<close> (so when its expiry is in the future), the
  one call is the release of the client with the nonce; the lease is cleared whatever the
  client answers, and its error is logged and returned.
\<close>

theorem ReleaseLease_tolerance:
  "(case timeNow env (ext w) of
      (t1, s1) \<Rightarrow>
        (case timeNow env s1 of
           (t2, s2) \<Rightarrow>
             (leaseNonce lm = [] \<longrightarrow> ReleaseLease env c lm w = (None, resetLease lm, w))
           \<and> (leaseNonce lm \<noteq> [] \<and> leaseExpiration lm \<le> t1 \<longrightarrow>
                ReleaseLease env c lm w = (None, resetLease lm, w\<lparr>ext := s1\<rparr>))
           \<and> (leaseNonce lm \<noteq> [] \<and> t1 < leaseExpiration lm
                 \<and> leaseExpiration lm + 5 * Second < t2 \<longrightarrow>
                ReleaseLease env c lm w = (None, resetLease lm, w\<lparr>ext := s2\<rparr>))
           \<and> (leaseNonce lm \<noteq> [] \<and> t1 < leaseExpiration lm
                 \<and> t2 \<le> leaseExpiration lm + 5 * Second \<longrightarrow>
                (case flapsReleaseLease env c (ID (machine lm)) (leaseNonce lm) s2 of
                   (r, s3) \<Rightarrow>
                     ReleaseLease env c lm w =
                       (r, resetLease lm,
                        \<lparr>ext = s3,
                         trace = trace w @ [CallReleaseLease c (ID (machine lm)) (leaseNonce lm)]
                           @ (case r of
                                None \<Rightarrow> []
                              | Some err \<Rightarrow>
                                  [LogError (''failed to release lease for machine ''
                                               @ ID (machine lm)) err])\<rparr>)))))"
  by (auto simp: ReleaseLease_def HasLease_def now_def call_def emit_def time_Sub_tolerance
           split: prod.splits option.splits)

theorem ReleaseLease_tolerance_witness:
  "ReleaseLease sampleEnv Ctx (NewLeasableMachine (sampleMachine ''m1'')) sampleWorld =
     (None, NewLeasableMachine (sampleMachine ''m1''), sampleWorld)
   \<and> ReleaseLease sampleEnv Ctx (sampleLeased ''m1'')
        (sampleWorld\<lparr>ext := \<lparr>clock = 1806 * Second, tick = 0, failingGets = 0, unhealthyGets = 0\<rparr>\<rparr>) =
       (None, NewLeasableMachine (sampleMachine ''m1''),
        sampleWorld\<lparr>ext := \<lparr>clock = 1806 * Second, tick = 0, failingGets = 0, unhealthyGets = 0\<rparr>\<rparr>)
   \<and> ReleaseLease sampleEnv Ctx (sampleLeased ''m1'')
        (sampleWorld\<lparr>ext := \<lparr>clock = 1799 * Second, tick = 7 * Second, failingGets = 0, unhealthyGets = 0\<rparr>\<rparr>) =
       (None, NewLeasableMachine (sampleMachine ''m1''),
        sampleWorld\<lparr>ext := \<lparr>clock = 1813 * Second, tick = 7 * Second, failingGets = 0, unhealthyGets = 0\<rparr>\<rparr>)
   \<and> ReleaseLease sampleEnv Ctx (sampleLeased ''m1'') sampleWorld =
       (None, NewLeasableMachine (sampleMachine ''m1''),
        sampleWorld\<lparr>trace := [CallReleaseLease Ctx ''m1'' ''nonce-m1'']\<rparr>)
   \<and> ReleaseLease sampleEnv Ctx (sampleLeased ''stuck'') sampleWorld =
       (Some (ErrorNew ''lease not found''), NewLeasableMachine (sampleMachine ''stuck''),
        sampleWorld\<lparr>trace := [CallReleaseLease Ctx ''stuck'' ''nonce-stuck'',
          LogError ''failed to release lease for machine stuck'' (ErrorNew ''lease not found'')]\<rparr>)"
  using ReleaseLease_tolerance [where env = sampleEnv and w = sampleWorld
          and lm = "NewLeasableMachine (sampleMachine ''m1'')" and c = Ctx]
        ReleaseLease_tolerance [where env = sampleEnv
          and w = "sampleWorld\<lparr>ext := \<lparr>clock = 1806 * Second, tick = 0, failingGets = 0, unhealthyGets = 0\<rparr>\<rparr>"
          and lm = "sampleLeased ''m1''" and c = Ctx]
        ReleaseLease_tolerance [where env = sampleEnv
          and w = "sampleWorld\<lparr>ext := \<lparr>clock = 1799 * Second, tick = 7 * Second, failingGets = 0, unhealthyGets = 0\<rparr>\<rparr>"
          and lm = "sampleLeased ''m1''" and c = Ctx]
        ReleaseLease_tolerance [where env = sampleEnv and w = sampleWorld
          and lm = "sampleLeased ''m1''" and c = Ctx]
        ReleaseLease_tolerance [where env = sampleEnv and w = sampleWorld
          and lm = "sampleLeased ''stuck''" and c = Ctx]
  by (simp add: resetLease_def sample_defs)

text \<open>
  C10. Whatever path \<^verbatim>\<open>ReleaseLease\<close> takes, the machine it leaves has an empty nonce and
  the zero expiry, so \<^verbatim>\<open>HasLease\<close> is false on it in every environment; this holds as
  well when the release of the client has failed and its error is returned.
\<close>

theorem ReleaseLease_clears_lease:
  "fst (snd (ReleaseLease env c lm w)) = resetLease lm
   \<and> leaseNonce (resetLease lm) = []
   \<and> leaseExpiration (resetLease lm) = zeroTime
   \<and> HasLease env' (fst (snd (ReleaseLease env c lm w))) w' = (False, w')
   \<and> (\<forall>err. fst (ReleaseLease env c lm w) = Some err \<longrightarrow>
        leaseNonce (fst (snd (ReleaseLease env c lm w))) = []
        \<and> leaseExpiration (fst (snd (ReleaseLease env c lm w))) = zeroTime)"
  by (simp add: ReleaseLease_resets) (simp add: resetLease_def)

theorem ReleaseLease_clears_lease_witness:
  "fst (ReleaseLease sampleEnv Ctx (sampleLeased ''stuck'') sampleWorld)
     = Some (ErrorNew ''lease not found'')
   \<and> leaseNonce (fst (snd (ReleaseLease sampleEnv Ctx (sampleLeased ''stuck'') sampleWorld))) = []
   \<and> leaseExpiration (fst (snd (ReleaseLease sampleEnv Ctx (sampleLeased ''stuck'') sampleWorld)))
       = zeroTime
   \<and> HasLease sampleEnv (fst (snd (ReleaseLease sampleEnv Ctx (sampleLeased ''stuck'') sampleWorld)))
       sampleWorld = (False, sampleWorld)"
proof -
  have failed: "fst (ReleaseLease sampleEnv Ctx (sampleLeased ''stuck'') sampleWorld)
                  = Some (ErrorNew ''lease not found'')"
    by (simp add: ReleaseLease_def HasLease_def now_def call_def emit_def time_Sub_def
          minDuration_def maxDuration_def sample_defs)
  show ?thesis
    using failed
      ReleaseLease_clears_lease [where env = sampleEnv and c = Ctx
        and lm = "sampleLeased ''stuck''" and w = sampleWorld and env' = sampleEnv
        and w' = sampleWorld]
    by simp
qed

lemma fanOut_length [simp]: "length (fst (snd (fanOut f order ms w))) = length ms"
proof (induction order arbitrary: ms w)
  case Nil
  show ?case by simp
next
  case (Cons j order)
  show ?case
  proof (cases "j < length ms")
    case False
    then show ?thesis using Cons.IH [of ms w] by simp
  next
    case True
    obtain r m w1 where step: "f (ms ! j) w = (r, m, w1)"
      by (cases "f (ms ! j) w") auto
    show ?thesis
      using True step Cons.IH [of "ms[j := m]" w1] by (auto split: prod.splits)
  qed
qed

lemma fanOut_members:
  assumes f: "\<And>m w. fst (snd (f m w)) = g m" and g: "\<And>m. g (g m) = g m"
  shows "fst (snd (fanOut f order ms w)) =
           map (\<lambda>i. if i \<in> set order then g (ms ! i) else ms ! i) [0..<length ms]"
proof (induction order arbitrary: ms w)
  case Nil
  show ?case by (simp add: map_nth)
next
  case (Cons j order)
  show ?case
  proof (cases "j < length ms")
    case False
    then show ?thesis using Cons.IH [of ms w] by auto
  next
    case True
    obtain r m w1 where step: "f (ms ! j) w = (r, m, w1)"
      by (cases "f (ms ! j) w") auto
    have m: "m = g (ms ! j)" using f [of "ms ! j" w] step by simp
    have "fst (snd (fanOut f (j # order) ms w)) = fst (snd (fanOut f order (ms[j := m]) w1))"
      using True step by (simp split: prod.splits)
    also have "\<dots> = map (\<lambda>i. if i \<in> set order then g (ms[j := m] ! i) else ms[j := m] ! i)
                        [0..<length ms]"
      using Cons.IH [of "ms[j := m]" w1] by simp
    also have "\<dots> = map (\<lambda>i. if i \<in> set (j # order) then g (ms ! i) else ms ! i) [0..<length ms]"
      using True by (auto simp: m g nth_list_update)
    finally show ?thesis .
  qed
qed

lemma fanOut_fair:
  assumes f: "\<And>m w. fst (snd (f m w)) = g m" and g: "\<And>m. g (g m) = g m"
    and "set order = {..<length ms}"
  shows "fst (snd (fanOut f order ms w)) = map g ms"
proof -
  have "fst (snd (fanOut f order ms w)) =
          map (\<lambda>i. if i \<in> set order then g (ms ! i) else ms ! i) [0..<length ms]"
    by (rule fanOut_members [of f g, OF f g])
  also have "\<dots> = map (\<lambda>i. g (ms ! i)) [0..<length ms]"
    by (rule map_cong) (simp_all add: assms(3))
  also have "\<dots> = map g (map ((!) ms) [0..<length ms])"
    by (simp add: comp_def)
  also have "\<dots> = map g ms"
    by (simp only: map_nth)
  finally show ?thesis .
qed

lemma ReleaseLeases_members:
  assumes "fair env"
  shows "fst (snd (ReleaseLeases env c ms w)) = map resetLease ms"
proof -
  have *: "fst (snd (fanOut (ReleaseLease env c1) (schedule env (length ms) s) ms w1)) = map resetLease ms"
    for c1 s w1
    using assms by (intro fanOut_fair) (simp_all add: ReleaseLease_resets resetLease_idem fair_def)
  show ?thesis
    using * by (simp add: ReleaseLeases_def Let_def split: prod.splits) (metis fst_conv snd_conv)
qed

lemma runOnEach_cong:
  "(\<And>i. i \<in> set order \<Longrightarrow> ms ! i = ms' ! i) \<Longrightarrow> runOnEach f ms order w = runOnEach f ms' order w"
proof (induction order arbitrary: w)
  case Nil
  show ?case by simp
next
  case (Cons j order)
  have eq: "ms ! j = ms' ! j" using Cons.prems by simp
  have rest: "runOnEach f ms order w1 = runOnEach f ms' order w1" for w1
    using Cons.prems by (intro Cons.IH) simp
  show ?case by (simp add: eq rest)
qed

lemma runOnEach_length: "length (fst (runOnEach f ms order w)) = length order"
proof (induction order arbitrary: w)
  case Nil
  show ?case by simp
next
  case (Cons j order)
  obtain r m w1 where step: "f (ms ! j) w = (r, m, w1)"
    by (cases "f (ms ! j) w") auto
  obtain rs w2 where run: "runOnEach f ms order w1 = (rs, w2)"
    by (cases "runOnEach f ms order w1") auto
  show ?case using Cons.IH [of w1] by (simp add: step run)
qed

lemma fanOut_runOnEach:
  assumes "distinct order" and "\<And>i. i \<in> set order \<Longrightarrow> i < length ms"
  shows "fst (fanOut f order ms w) = fst (runOnEach f ms order w)
         \<and> snd (snd (fanOut f order ms w)) = snd (runOnEach f ms order w)"
  using assms
proof (induction order arbitrary: ms w)
  case Nil
  show ?case by simp
next
  case (Cons j order)
  have j: "j < length ms" using Cons.prems(2) by simp
  have notin: "j \<notin> set order" and d: "distinct order" using Cons.prems(1) by simp_all
  obtain r m w1 where step: "f (ms ! j) w = (r, m, w1)"
    by (cases "f (ms ! j) w") auto
  have ih: "fst (fanOut f order (ms[j := m]) w1) = fst (runOnEach f (ms[j := m]) order w1)
         \<and> snd (snd (fanOut f order (ms[j := m]) w1)) = snd (runOnEach f (ms[j := m]) order w1)"
    using Cons.prems(2) by (intro Cons.IH [OF d]) simp
  have same: "runOnEach f (ms[j := m]) order w1 = runOnEach f ms order w1"
    using notin by (intro runOnEach_cong) (metis nth_list_update_neq)
  obtain rs ms' w' where fan: "fanOut f order (ms[j := m]) w1 = (rs, ms', w')"
    by (cases "fanOut f order (ms[j := m]) w1") auto
  obtain rs2 w2 where run: "runOnEach f ms order w1 = (rs2, w2)"
    by (cases "runOnEach f ms order w1") auto
  show ?case
    using j ih unfolding same by (simp add: step fan run)
qed

lemma ReleaseLeases_runs:
  assumes "fair env"
  shows "ReleaseLeases env c ms w =
     (let contextWasAlreadyCanceled =
            (case ctxErr env c (ext w) of None \<Rightarrow> False | Some e \<Rightarrow> errors_Is e Canceled);
          c1 = (if contextWasAlreadyCanceled then TodoWithTimeout (500 * Millisecond) else c);
          w1 = (if contextWasAlreadyCanceled then
                  emit (Log ''detected canceled context and allowing 500ms to release machine leases'') w
                else w)
      in case runOnEach (ReleaseLease env c1) ms (schedule env (length ms) (ext w1)) w1 of
           (results, w2) \<Rightarrow>
             let counted = filter (\<lambda>err. \<not> contextWasAlreadyCanceled
                             \<or> \<not> (errors_Is err DeadlineExceeded \<or> errors_Is err Canceled))
                             (List.map_filter id results)
             in (if counted \<noteq> [] then Some (ErrorNew ''error releasing leases on machines'')
                 else None,
                 map resetLease ms, warnAll ''failed to release lease'' counted w2))"
proof -
  have run: "fanOut (ReleaseLease env c1) (schedule env (length ms) s) ms w1 =
          (fst (runOnEach (ReleaseLease env c1) ms (schedule env (length ms) s) w1),
           map resetLease ms,
           snd (runOnEach (ReleaseLease env c1) ms (schedule env (length ms) s) w1))" for c1 s w1
  proof -
    have d: "distinct (schedule env (length ms) s)"
      and i: "\<And>i. i \<in> set (schedule env (length ms) s) \<Longrightarrow> i < length ms"
      using assms by (simp_all add: fair_def)
    have m: "fst (snd (fanOut (ReleaseLease env c1) (schedule env (length ms) s) ms w1))
               = map resetLease ms"
      using assms by (intro fanOut_fair) (simp_all add: ReleaseLease_resets resetLease_idem fair_def)
    show ?thesis
      using fanOut_runOnEach [OF d i, of "ReleaseLease env c1" w1] m
      by (cases "fanOut (ReleaseLease env c1) (schedule env (length ms) s) ms w1") simp
  qed
  show ?thesis
    unfolding ReleaseLeases_def Let_def run by (simp split: prod.splits)
qed

text \<open>
  C2. Under a schedule that runs each goroutine once: when the acquisition of some member
  fails, \<^verbatim>\<open>AcquireLeases\<close> returns the error "error acquiring leases on all machines",
  and what it returns with it is what \<^verbatim>\<open>ReleaseLeases\<close> has made of the set and the world
  that the acquisitions and their warnings have left. In that world \<^verbatim>\<open>ReleaseLease\<close> has
  run once on every member, those that had acquired a lease included, each on the member
  as the acquisitions have left it, in the order of the schedule, and under a fresh context
  of 500ms when the context of the call was canceled; the errors of these runs are logged,
  and one more line when there is any. The set returned is the one the acquisitions have
  left with every lease reset: no member has a nonce, and \<^verbatim>\<open>HasLease\<close> is false on every
  member in every environment.
\<close>

theorem AcquireLeases_all_or_nothing:
  assumes "fair env"
    and "\<exists>r \<in> set (fst (fanOut (AcquireLease env c d) (schedule env (length ms) (ext w)) ms w)).
           r \<noteq> None"
  shows "case fanOut (AcquireLease env c d) (schedule env (length ms) (ext w)) ms w of
           (results, ms1, w1) \<Rightarrow>
             let w2 = warnAll ''failed to acquire lease'' (List.map_filter id results) w1;
                 contextWasAlreadyCanceled =
                   (case ctxErr env c (ext w2) of None \<Rightarrow> False
                    | Some e \<Rightarrow> errors_Is e Canceled);
                 c1 = (if contextWasAlreadyCanceled then TodoWithTimeout (500 * Millisecond)
                       else c);
                 w3 = (if contextWasAlreadyCanceled then
                         emit (Log ''detected canceled context and allowing 500ms to release machine leases'') w2
                       else w2);
                 order = schedule env (length ms1) (ext w3)
             in case runOnEach (ReleaseLease env c1) ms1 order w3 of
                  (released, w4) \<Rightarrow>
                    let counted = filter (\<lambda>err. \<not> contextWasAlreadyCanceled
                                    \<or> \<not> (errors_Is err DeadlineExceeded \<or> errors_Is err Canceled))
                                    (List.map_filter id released);
                        w5 = warnAll ''failed to release lease'' counted w4
                    in AcquireLeases env c d ms w
                         = (Some (ErrorNew ''error acquiring leases on all machines''),
                            map resetLease ms1,
                            if counted \<noteq> [] then
                              emit (LogError ''error releasing machine leases''
                                      (ErrorNew ''error releasing leases on machines'')) w5
                            else w5)
                       \<and> ReleaseLeases env c ms1 w2
                           = (if counted \<noteq> [] then
                                Some (ErrorNew ''error releasing leases on machines'')
                              else None,
                              map resetLease ms1, w5)
                       \<and> distinct order \<and> set order = {..<length ms}
                       \<and> length released = length ms
                       \<and> length ms1 = length ms
                       \<and> (\<forall>m \<in> set (fst (snd (AcquireLeases env c d ms w))).
                             leaseNonce m = [] \<and> (\<forall>env' w'. \<not> fst (HasLease env' m w')))"
proof -
  obtain results ms1 w1 where fan:
    "fanOut (AcquireLease env c d) (schedule env (length ms) (ext w)) ms w = (results, ms1, w1)"
    by (cases "fanOut (AcquireLease env c d) (schedule env (length ms) (ext w)) ms w") auto
  define w2 where "w2 = warnAll ''failed to acquire lease'' (List.map_filter id results) w1"
  define canceled where
    "canceled = (case ctxErr env c (ext w2) of None \<Rightarrow> False | Some e \<Rightarrow> errors_Is e Canceled)"
  define c1 where "c1 = (if canceled then TodoWithTimeout (500 * Millisecond) else c)"
  define w3 where "w3 = (if canceled then
       emit (Log ''detected canceled context and allowing 500ms to release machine leases'') w2
     else w2)"
  define order where "order = schedule env (length ms1) (ext w3)"
  obtain released w4 where run: "runOnEach (ReleaseLease env c1) ms1 order w3 = (released, w4)"
    by (cases "runOnEach (ReleaseLease env c1) ms1 order w3") auto
  define counted where "counted = filter (\<lambda>err. \<not> canceled
         \<or> \<not> (errors_Is err DeadlineExceeded \<or> errors_Is err Canceled)) (List.map_filter id released)"
  define w5 where "w5 = warnAll ''failed to release lease'' counted w4"
  from assms(2) fan have errs: "List.map_filter id results \<noteq> []"
    by (auto simp: List.map_filter_def filter_empty_conv)
  have len1: "length ms1 = length ms"
    using fanOut_length [of "AcquireLease env c d" "schedule env (length ms) (ext w)" ms w] fan
    by simp
  have rel: "ReleaseLeases env c ms1 w2
      = (if counted \<noteq> [] then Some (ErrorNew ''error releasing leases on machines'') else None,
         map resetLease ms1, w5)"
    unfolding ReleaseLeases_runs [OF assms(1)] Let_def
    unfolding canceled_def [symmetric]
    unfolding c1_def [symmetric] w3_def [symmetric]
    unfolding order_def [symmetric]
    unfolding run prod.case
    unfolding counted_def [symmetric]
    unfolding w5_def [symmetric]
    by (rule refl)
  have res: "AcquireLeases env c d ms w
      = (Some (ErrorNew ''error acquiring leases on all machines''), map resetLease ms1,
         if counted \<noteq> [] then
           emit (LogError ''error releasing machine leases''
                   (ErrorNew ''error releasing leases on machines'')) w5
         else w5)"
    using fan errs rel by (simp add: AcquireLeases_def Let_def w2_def [symmetric])
  have ord: "distinct order \<and> set order = {..<length ms}"
    using assms(1) len1 by (simp add: order_def fair_def)
  have lenrel: "length released = length ms"
  proof -
    have "length released = length order" 
      using runOnEach_length [of "ReleaseLease env c1" ms1 order w3] run by simp
    also have "\<dots> = length ms" using ord distinct_card [of order] by simp
    finally show ?thesis .
  qed
  have clear: "\<forall>m \<in> set (fst (snd (AcquireLeases env c d ms w))).
       leaseNonce m = [] \<and> (\<forall>env' w'. \<not> fst (HasLease env' m w'))"
    unfolding res by (auto simp: resetLease_def HasLease_def)
  show ?thesis
    unfolding fan prod.case Let_def
    unfolding w2_def [symmetric]
    unfolding canceled_def [symmetric]
    unfolding c1_def [symmetric] w3_def [symmetric]
    unfolding order_def [symmetric]
    unfolding run prod.case
    unfolding counted_def [symmetric]
    unfolding w5_def [symmetric]
    using res rel ord lenrel len1 clear by blast
qed

lemma fair_sampleEnv: "fair sampleEnv"
  by (auto simp: fair_def sampleEnv_def)

theorem AcquireLeases_all_or_nothing_witness:
  "fair sampleEnv
   \<and> fst (fanOut (AcquireLease sampleEnv Ctx (1800 * Second))
            (schedule sampleEnv 3 (ext sampleWorld)) (sampleSet [''m1'', ''locked'', ''m3''])
            sampleWorld)
       = [None, Some (ErrorNew ''machine is leased''), None]
   \<and> AcquireLeases sampleEnv Ctx (1800 * Second) (sampleSet [''m1'', ''locked'', ''m3''])
            sampleWorld
       = (Some (ErrorNew ''error acquiring leases on all machines''),
          sampleSet [''m1'', ''locked'', ''m3''],
          sampleWorld\<lparr>trace :=
            [CallAcquireLease Ctx ''m3'' (1800 * Second),
             CallAcquireLease Ctx ''locked'' (1800 * Second),
             CallAcquireLease Ctx ''m1'' (1800 * Second),
             LogError ''failed to acquire lease'' (ErrorNew ''machine is leased''),
             CallReleaseLease Ctx ''m3'' ''nonce-m3'',
             CallReleaseLease Ctx ''m1'' ''nonce-m1'']\<rparr>)
   \<and> releasedIDs (trace (snd (snd (AcquireLeases sampleEnv Ctx (1800 * Second)
            (sampleSet [''m1'', ''locked'', ''m3'']) sampleWorld)))) = [''m3'', ''m1'']
   \<and> length (fst (snd (AcquireLeases sampleEnv Ctx (1800 * Second)
            (sampleSet [''m1'', ''locked'', ''m3'']) sampleWorld))) = 3
   \<and> list_all (\<lambda>m. leaseNonce m = [] \<and> \<not> fst (HasLease sampleEnv m sampleWorld))
         (fst (snd (AcquireLeases sampleEnv Ctx (1800 * Second)
            (sampleSet [''m1'', ''locked'', ''m3'']) sampleWorld)))"
proof -
  have sched: "schedule sampleEnv 3 s = [2, 1, 0]" for s
    by (simp add: sampleEnv_sel upt_rec)
  have len: "length (sampleSet [''m1'', ''locked'', ''m3'']) = 3"
    by (simp add: sampleSet_def)
  have id: "ID (sampleMachine i) = i" for i
    by (simp add: sampleMachine_def)
  have fan2: "fanOut (AcquireLease sampleEnv Ctx (1800 * Second))
            [2, 1, 0] (sampleSet [''m1'', ''locked'', ''m3''])
            sampleWorld
       = ([None, Some (ErrorNew ''machine is leased''), None],
          [sampleLeased ''m1'', NewLeasableMachine (sampleMachine ''locked''), sampleLeased ''m3''],
          sampleWorld\<lparr>trace :=
            [CallAcquireLease Ctx ''m3'' (1800 * Second),
             CallAcquireLease Ctx ''locked'' (1800 * Second),
             CallAcquireLease Ctx ''m1'' (1800 * Second)]\<rparr>)"
    by (simp add: sampleSet_def AcquireLease_def HasLease_def call_def sampleEnv_sel id
          sampleWorld_def sampleLeased_def NewLeasableMachine_def time_Unix_def)
  have fan: "fst (fanOut (AcquireLease sampleEnv Ctx (1800 * Second))
            (schedule sampleEnv 3 (ext sampleWorld)) (sampleSet [''m1'', ''locked'', ''m3''])
            sampleWorld)
       = [None, Some (ErrorNew ''machine is leased''), None]"
    unfolding sched fan2 by simp
  have failed: "\<exists>r \<in> set (fst (fanOut (AcquireLease sampleEnv Ctx (1800 * Second))
            (schedule sampleEnv (length (sampleSet [''m1'', ''locked'', ''m3''])) (ext sampleWorld))
            (sampleSet [''m1'', ''locked'', ''m3'']) sampleWorld)). r \<noteq> None"
    unfolding len sched fan2 by simp
  have run: "runOnEach (ReleaseLease sampleEnv Ctx)
       [sampleLeased ''m1'', NewLeasableMachine (sampleMachine ''locked''), sampleLeased ''m3'']
       [2, 1, 0]
       (sampleWorld\<lparr>trace :=
            [CallAcquireLease Ctx ''m3'' (1800 * Second),
             CallAcquireLease Ctx ''locked'' (1800 * Second),
             CallAcquireLease Ctx ''m1'' (1800 * Second),
             LogError ''failed to acquire lease'' (ErrorNew ''machine is leased'')]\<rparr>)
     = ([None, None, None],
        sampleWorld\<lparr>trace :=
            [CallAcquireLease Ctx ''m3'' (1800 * Second),
             CallAcquireLease Ctx ''locked'' (1800 * Second),
             CallAcquireLease Ctx ''m1'' (1800 * Second),
             LogError ''failed to acquire lease'' (ErrorNew ''machine is leased''),
             CallReleaseLease Ctx ''m3'' ''nonce-m3'',
             CallReleaseLease Ctx ''m1'' ''nonce-m1'']\<rparr>)"
    by (simp add: ReleaseLease_def HasLease_def now_def call_def emit_def time_Sub_def
          sampleEnv_sel sampleWorld_def sampleLeased_def NewLeasableMachine_def sampleMachine_def
          time_Unix_def wrap64_def unixToInternal_def zeroTime_def Second_def
          maxDuration_def minDuration_def)
  have res: "AcquireLeases sampleEnv Ctx (1800 * Second) (sampleSet [''m1'', ''locked'', ''m3''])
            sampleWorld
       = (Some (ErrorNew ''error acquiring leases on all machines''),
          sampleSet [''m1'', ''locked'', ''m3''],
          sampleWorld\<lparr>trace :=
            [CallAcquireLease Ctx ''m3'' (1800 * Second),
             CallAcquireLease Ctx ''locked'' (1800 * Second),
             CallAcquireLease Ctx ''m1'' (1800 * Second),
             LogError ''failed to acquire lease'' (ErrorNew ''machine is leased''),
             CallReleaseLease Ctx ''m3'' ''nonce-m3'',
             CallReleaseLease Ctx ''m1'' ''nonce-m1'']\<rparr>)"
  proof -
    have w2: "warnAll ''failed to acquire lease''
                (List.map_filter id [None, Some (ErrorNew ''machine is leased''), None])
                (sampleWorld\<lparr>trace :=
                   [CallAcquireLease Ctx ''m3'' (1800 * Second),
                    CallAcquireLease Ctx ''locked'' (1800 * Second),
                    CallAcquireLease Ctx ''m1'' (1800 * Second)]\<rparr>)
              = sampleWorld\<lparr>trace :=
                   [CallAcquireLease Ctx ''m3'' (1800 * Second),
                    CallAcquireLease Ctx ''locked'' (1800 * Second),
                    CallAcquireLease Ctx ''m1'' (1800 * Second),
                    LogError ''failed to acquire lease'' (ErrorNew ''machine is leased'')]\<rparr>"
      by (simp add: warnAll_def emit_def List.map_filter_def sampleWorld_def)
    have cerr: "ctxErr sampleEnv Ctx s = None" for s
      by (simp add: sampleEnv_sel)
    have len1: "length [sampleLeased ''m1'', NewLeasableMachine (sampleMachine ''locked''),
                        sampleLeased ''m3''] = 3"
      by simp
    have reset: "map resetLease [sampleLeased ''m1'', NewLeasableMachine (sampleMachine ''locked''),
                        sampleLeased ''m3''] = sampleSet [''m1'', ''locked'', ''m3'']"
      by (simp add: resetLease_def sampleLeased_def NewLeasableMachine_def sampleSet_def)
    show ?thesis
      using AcquireLeases_all_or_nothing [OF fair_sampleEnv failed]
      unfolding len sched fan2 prod.case Let_def w2 cerr option.case if_False len1 run reset
      by (simp add: warnAll_def List.map_filter_def) (elim conjE, assumption)
  qed
  show ?thesis
    unfolding res
    using fair_sampleEnv fan
    by (simp add: releasedIDs_def sampleSet_def HasLease_def NewLeasableMachine_def sampleWorld_def)
qed


section \<open>Properties of the resolved configuration\<close>

lemma copyUserMetadata_same [simp]: "copyUserMetadata a m m = m"
  by (auto simp: copyUserMetadata_def)

text \<open>
  C9. In restart-only mode, for a machine that has a configuration,
  \<^verbatim>\<open>resolveUpdatedMachineConfig\<close> returns without a panic and without a message, and the
  configuration of the input is the original configuration with its metadata replaced by
  the default metadata of the deployment: image, init command, checks, services, metrics,
  environment, mounts, guest and restart policy are the original ones. The machine holds
  the same configuration afterwards, and the deployment is unchanged.
\<close>

theorem resolveUpdatedMachineConfig_restartOnly:
  assumes "restartOnly md" and "Config orig = Some origConf"
  shows "\<exists>launchInput conf.
           resolveUpdatedMachineConfig a md processGroup (Some orig) w
             = (Return (launchInput, orig\<lparr>Config := Some conf\<rparr>, md), w)
           \<and> InputConfig launchInput = Some conf
           \<and> conf = origConf\<lparr>Metadata := defaultMachineMetadata a md processGroup\<rparr>
           \<and> Image conf = Image origConf
           \<and> InitCmd conf = InitCmd origConf
           \<and> Checks conf = Checks origConf
           \<and> Services conf = Services origConf
           \<and> Metrics conf = Metrics origConf
           \<and> Env conf = Env origConf
           \<and> Mounts conf = Mounts origConf
           \<and> Guest conf = Guest origConf
           \<and> RestartPolicy conf = RestartPolicy origConf"
  using assms by (simp add: resolveUpdatedMachineConfig_def Let_def)

theorem resolveUpdatedMachineConfig_restartOnly_witness:
  "restartOnly (sampleDeployment\<lparr>restartOnly := True\<rparr>)
   \<and> Config (sampleMachine ''m1'') = Some sampleConfig
   \<and> (case fst (resolveUpdatedMachineConfig sampleApi (sampleDeployment\<lparr>restartOnly := True\<rparr>)
                  ''app'' (Some (sampleMachine ''m1'')) sampleWorld) of
         Return (launchInput, orig, md) \<Rightarrow>
           map_option Image (InputConfig launchInput) = Some ''app:v1''
           \<and> map_option InitCmd (InputConfig launchInput) = Some [''/start'']
           \<and> map_option Mounts (InputConfig launchInput)
               = Some [\<lparr>Volume = ''vol_1'', Path = ''/data'', Name = ''data''\<rparr>]
           \<and> map_option (\<lambda>conf. Metadata conf ''fly_release_id'') (InputConfig launchInput)
               = Some (Some ''rel_1'')
       | Panic p \<Rightarrow> False)"
  using resolveUpdatedMachineConfig_restartOnly [where md = "sampleDeployment\<lparr>restartOnly := True\<rparr>"
      and orig = "sampleMachine ''m1''" and origConf = sampleConfig and a = sampleApi
      and processGroup = "''app''" and w = sampleWorld]
  by (auto simp: sampleDeployment_def sampleMachine_def sampleConfig_def defaultMachineMetadata_def
        sampleApi_def)


section \<open>The release command machine and the empty fleet\<close>

text \<open>
  C5. A deployment with the release command \<open>bin/migrate\<close>, restart-only mode off and no
  release command machine: \<^verbatim>\<open>runReleaseCommand\<close> returns nil at its guard, leaving the
  deployment and the world as they are, so no machine is launched. \<^verbatim>\<open>createReleaseCommandMachine\<close>
  itself, called on this deployment, panics in \<^verbatim>\<open>resolveUpdatedMachineConfig\<close>, which it
  hands a nil machine.
\<close>

theorem runReleaseCommand_creates_no_machine:
  "runReleaseCommand sampleEnv Ctx
     (sampleDeployment\<lparr>releaseCommand := ''bin/migrate''\<rparr>) sampleWorld
   = Some (Return None, sampleDeployment\<lparr>releaseCommand := ''bin/migrate''\<rparr>, sampleWorld)
   \<and> fst (createReleaseCommandMachine sampleEnv Ctx
            (sampleDeployment\<lparr>releaseCommand := ''bin/migrate''\<rparr>) sampleWorld)
       = Panic ''nil pointer dereference''"
  by (simp add: runReleaseCommand_def createReleaseCommandMachine_def IsEmpty_def
        resolveUpdatedMachineConfig_def sampleDeployment_def)


text \<open>
  C6. A deployment with an empty machine set and no release command:
  \<^verbatim>\<open>DeployMachinesApp\<close> panics in \<^verbatim>\<open>createOneMachine\<close>, which hands
  \<^verbatim>\<open>resolveUpdatedMachineConfig\<close> a nil machine, after its first message and before any
  call to the client. The process group that \<^verbatim>\<open>createOneMachine\<close> passes is the release
  command's, which is not the group of the app.
\<close>

theorem DeployMachinesApp_empty_fleet_panics:
  "DeployMachinesApp sampleEnv Ctx (sampleDeployment\<lparr>machineSet := []\<rparr>) sampleWorld
   = Some (Panic ''nil pointer dereference'', sampleDeployment\<lparr>machineSet := []\<rparr>,
           sampleWorld\<lparr>trace := [Log ''No machines in shop app, launching one new machine'']\<rparr>)
   \<and> MachineProcessGroupReleaseCommand (api sampleEnv) \<noteq> MachineProcessGroupApp (api sampleEnv)"
  by (simp add: DeployMachinesApp_def runReleaseCommand_def createOneMachine_def IsEmpty_def
        resolveUpdatedMachineConfig_def emit_def sampleDeployment_def sampleWorld_def
        sampleEnv_def sampleApi_def)



section \<open>Properties of the wait for health checks\<close>

lemma shortestInterval_fold_le:
  "fold (\<lambda>(name, c) shortest. if Interval c < shortest then Interval c else shortest) checks d \<le> d"
proof (induction checks arbitrary: d)
  case Nil
  show ?case by simp
next
  case (Cons a checks)
  obtain name c where a: "a = (name, c)" by (cases a) auto
  have "fold (\<lambda>(name, c) shortest. if Interval c < shortest then Interval c else shortest) checks
          (if Interval c < d then Interval c else d)
        \<le> (if Interval c < d then Interval c else d)"
    by (rule Cons.IH)
  also have "\<dots> \<le> d" by simp
  finally show ?case by (simp add: a)
qed

lemma shortestInterval_fold_member:
  "(name, chk) \<in> set checks \<Longrightarrow>
   fold (\<lambda>(name, c) shortest. if Interval c < shortest then Interval c else shortest) checks d
     \<le> Interval chk"
proof (induction checks arbitrary: d)
  case Nil
  then show ?case by simp
next
  case (Cons a checks)
  show ?case
  proof (cases "a = (name, chk)")
    case True
    have "fold (\<lambda>(name, c) shortest. if Interval c < shortest then Interval c else shortest) checks
            (if Interval chk < d then Interval chk else d)
          \<le> (if Interval chk < d then Interval chk else d)"
      by (rule shortestInterval_fold_le)
    then show ?thesis using True by (auto split: if_splits)
  next
    case False
    then have "(name, chk) \<in> set checks" using Cons.prems by auto
    then show ?thesis using Cons.IH by (simp split: prod.splits)
  qed
qed

lemma shortestInterval_le: "shortestInterval checks \<le> 120 * Second"
  unfolding shortestInterval_def by (rule shortestInterval_fold_le)

lemma shortestInterval_member:
  "(name, chk) \<in> set checks \<Longrightarrow> shortestInterval checks \<le> Interval chk"
  unfolding shortestInterval_def by (rule shortestInterval_fold_member)

lemma poll_fetch_error:
  assumes "flapsGet env wc (ID (machine lm)) (ext w) = (Inl err, s)"
  shows "WaitForHealthchecksToPass_poll env wc lm b printedFirst n w =
           Some (Some (if errors_Is err Canceled then err
                       else if errors_Is err DeadlineExceeded then
                         Wrapf (''timeout reached waiting for healthchecks to pass for machine ''
                                  @ ID (machine lm) @ '' '') err
                       else Wrapf (''error getting machine '' @ ID (machine lm)
                                     @ '' from api: '') err),
                 \<lparr>ext = s, trace = trace w @ [CallGet wc (ID (machine lm))]\<rparr>)"
  using assms by (subst WaitForHealthchecksToPass_poll.simps) (simp add: call_def)

lemma poll_passing:
  assumes "flapsGet env wc (ID (machine lm)) (ext w) = (Inr m, s)" and "AllPassing (api env) m"
  shows "WaitForHealthchecksToPass_poll env wc lm b printedFirst n w =
           Some (None, logHealthCheckStatus lm m (logClearLinesAbove env 1
                   \<lparr>ext = s, trace = trace w @ [CallGet wc (ID (machine lm))]\<rparr>))"
  using assms by (subst WaitForHealthchecksToPass_poll.simps) (simp add: call_def)

lemma poll_not_passing:
  assumes "flapsGet env wc (ID (machine lm)) (ext w) = (Inr m, s)" and "\<not> AllPassing (api env) m"
  shows "WaitForHealthchecksToPass_poll env wc lm b printedFirst n w =
           WaitForHealthchecksToPass_poll env wc lm b True (Suc n)
             (sleep env b n
                (if \<not> printedFirst \<or> isInteractive env then
                   logHealthCheckStatus lm m (logClearLinesAbove env 1
                     \<lparr>ext = s, trace = trace w @ [CallGet wc (ID (machine lm))]\<rparr>)
                 else \<lparr>ext = s, trace = trace w @ [CallGet wc (ID (machine lm))]\<rparr>))"
  using assms by (subst WaitForHealthchecksToPass_poll.simps) (simp add: call_def)

lemma rounds_poll:
  "roundsNotPassing env wc lm b p n k w = Some wk \<Longrightarrow>
   WaitForHealthchecksToPass_poll env wc lm b p n w
     = WaitForHealthchecksToPass_poll env wc lm b (p \<or> 0 < k) (n + k) wk"
proof (induction k arbitrary: p n w)
  case 0
  then show ?case by simp
next
  case (Suc k)
  obtain r s where get: "flapsGet env wc (ID (machine lm)) (ext w) = (r, s)"
    by (cases "flapsGet env wc (ID (machine lm)) (ext w)") auto
  from Suc.prems get obtain m where r: "r = Inr m" and np: "\<not> AllPassing (api env) m"
    by (cases r) (auto simp: call_def split: if_splits)
  from Suc.prems get r np have rest:
    "roundsNotPassing env wc lm b True (Suc n) k
       (sleep env b n
          (if \<not> p \<or> isInteractive env then
             logHealthCheckStatus lm m (logClearLinesAbove env 1
               \<lparr>ext = s, trace = trace w @ [CallGet wc (ID (machine lm))]\<rparr>)
           else \<lparr>ext = s, trace = trace w @ [CallGet wc (ID (machine lm))]\<rparr>)) = Some wk"
    by (simp add: call_def)
  have "WaitForHealthchecksToPass_poll env wc lm b p n w
      = WaitForHealthchecksToPass_poll env wc lm b True (Suc n)
          (sleep env b n
             (if \<not> p \<or> isInteractive env then
                logHealthCheckStatus lm m (logClearLinesAbove env 1
                  \<lparr>ext = s, trace = trace w @ [CallGet wc (ID (machine lm))]\<rparr>)
              else \<lparr>ext = s, trace = trace w @ [CallGet wc (ID (machine lm))]\<rparr>))"
    using get r np by (intro poll_not_passing) simp_all
  also have "\<dots> = WaitForHealthchecksToPass_poll env wc lm b (True \<or> 0 < k) (Suc n + k) wk"
    by (rule Suc.IH [OF rest])
  finally show ?case by simp
qed

lemma rounds_Suc:
  "roundsNotPassing env wc lm b p n (Suc k) w
     = (case roundsNotPassing env wc lm b p n k w of
          None \<Rightarrow> None
        | Some wk \<Rightarrow> roundsNotPassing env wc lm b (p \<or> 0 < k) (n + k) (Suc 0) wk)"
proof (induction k arbitrary: p n w)
  case 0
  show ?case by simp
next
  case (Suc k)
  obtain r s where get: "flapsGet env wc (ID (machine lm)) (ext w) = (r, s)"
    by (cases "flapsGet env wc (ID (machine lm)) (ext w)") auto
  show ?case
  proof (cases r)
    case (Inl err)
    with get show ?thesis by (simp add: call_def)
  next
    case (Inr m)
    show ?thesis
    proof (cases "AllPassing (api env) m")
      case True
      with get Inr show ?thesis by (simp add: call_def)
    next
      case False
      let ?w = "sleep env b n
          (if \<not> p \<or> isInteractive env then
             logHealthCheckStatus lm m (logClearLinesAbove env 1
               \<lparr>ext = s, trace = trace w @ [CallGet wc (ID (machine lm))]\<rparr>)
           else \<lparr>ext = s, trace = trace w @ [CallGet wc (ID (machine lm))]\<rparr>)"
      have one: "roundsNotPassing env wc lm b p n (Suc j) w
                   = roundsNotPassing env wc lm b True (Suc n) j ?w" for j
        using get Inr False by (simp add: call_def)
      show ?thesis
        unfolding one Suc.IH [of True "Suc n" ?w] by (simp split: option.splits)
    qed
  qed
qed

lemma rounds_next:
  assumes "roundsNotPassing env wc lm b p n k w = Some wk"
    and "flapsGet env wc (ID (machine lm)) (ext wk) = (Inr m, s)"
    and "\<not> AllPassing (api env) m"
  shows "roundsNotPassing env wc lm b p n (Suc k) w
     = Some (sleep env b (n + k)
               (if \<not> (p \<or> 0 < k) \<or> isInteractive env then
                  logHealthCheckStatus lm m (logClearLinesAbove env 1
                    \<lparr>ext = s, trace = trace wk @ [CallGet wc (ID (machine lm))]\<rparr>)
                else \<lparr>ext = s, trace = trace wk @ [CallGet wc (ID (machine lm))]\<rparr>))"
  using assms by (subst rounds_Suc) (simp add: call_def)

lemma rounds_stop_error:
  assumes "roundsNotPassing env wc lm b p n k w = Some wk"
    and "flapsGet env wc (ID (machine lm)) (ext wk) = (Inl err, s)"
  shows "roundsNotPassing env wc lm b p n (Suc k) w = None"
  using assms by (subst rounds_Suc) (simp add: call_def)

lemma rounds_stop_passing:
  assumes "roundsNotPassing env wc lm b p n k w = Some wk"
    and "flapsGet env wc (ID (machine lm)) (ext wk) = (Inr m, s)"
    and "AllPassing (api env) m"
  shows "roundsNotPassing env wc lm b p n (Suc k) w = None"
  using assms by (subst rounds_Suc) (simp add: call_def)

lemma poll_returns:
  "WaitForHealthchecksToPass_poll env wc lm b p n w = Some y \<Longrightarrow>
   (\<exists>k (wk :: 's world). roundsNotPassing env wc lm b p n k w = Some wk
      \<and> ((\<exists>err s. flapsGet env wc (ID (machine lm)) (ext wk) = (Inl err, s)
             \<and> y = (Some (if errors_Is err Canceled then err
                          else if errors_Is err DeadlineExceeded then
                            Wrapf (''timeout reached waiting for healthchecks to pass for machine ''
                                     @ ID (machine lm) @ '' '') err
                          else Wrapf (''error getting machine '' @ ID (machine lm)
                                        @ '' from api: '') err),
                    \<lparr>ext = s, trace = trace wk @ [CallGet wc (ID (machine lm))]\<rparr>))
          \<or> (\<exists>m s. flapsGet env wc (ID (machine lm)) (ext wk) = (Inr m, s)
                \<and> AllPassing (api env) m
                \<and> y = (None, logHealthCheckStatus lm m (logClearLinesAbove env 1
                          \<lparr>ext = s, trace = trace wk @ [CallGet wc (ID (machine lm))]\<rparr>)))))"
proof (induction rule: WaitForHealthchecksToPass_poll.raw_induct [rotated 1, consumes 1])
  case (1 poll env wc lm b p n w y)
  obtain r s where get: "flapsGet env wc (ID (machine lm)) (ext w) = (r, s)"
    by (cases "flapsGet env wc (ID (machine lm)) (ext w)") auto
  show ?case
  proof (cases r)
    case (Inl err)
    with 1(2) get have
      "y = (Some (if errors_Is err Canceled then err
                          else if errors_Is err DeadlineExceeded then
                            Wrapf (''timeout reached waiting for healthchecks to pass for machine ''
                                     @ ID (machine lm) @ '' '') err
                          else Wrapf (''error getting machine '' @ ID (machine lm)
                                        @ '' from api: '') err),
                    \<lparr>ext = s, trace = trace w @ [CallGet wc (ID (machine lm))]\<rparr>)"
      by (auto simp: call_def split: if_splits)
    with get Inl show ?thesis
      by - (rule exI [of _ 0], rule exI [of _ w], simp)
  next
    case (Inr m)
    show ?thesis
    proof (cases "AllPassing (api env) m")
      case True
      with 1(2) get Inr have
        "y = (None, logHealthCheckStatus lm m (logClearLinesAbove env 1
                   \<lparr>ext = s, trace = trace w @ [CallGet wc (ID (machine lm))]\<rparr>))"
        by (auto simp: call_def)
      with get Inr True show ?thesis
        by - (rule exI [of _ 0], rule exI [of _ w], simp)
    next
      case False
      let ?w = "sleep env b n
              (if \<not> p \<or> isInteractive env then
                 logHealthCheckStatus lm m (logClearLinesAbove env 1
                   \<lparr>ext = s, trace = trace w @ [CallGet wc (ID (machine lm))]\<rparr>)
               else \<lparr>ext = s, trace = trace w @ [CallGet wc (ID (machine lm))]\<rparr>)"
      from False 1(2) get Inr have "poll env wc lm b True (Suc n) ?w = Some y"
        by (simp add: call_def)
      then have ex: "\<exists>k (wk :: 's world). roundsNotPassing env wc lm b True (Suc n) k ?w = Some wk
        \<and> ((\<exists>err s. flapsGet env wc (ID (machine lm)) (ext wk) = (Inl err, s)
             \<and> y = (Some (if errors_Is err Canceled then err
                          else if errors_Is err DeadlineExceeded then
                            Wrapf (''timeout reached waiting for healthchecks to pass for machine ''
                                     @ ID (machine lm) @ '' '') err
                          else Wrapf (''error getting machine '' @ ID (machine lm)
                                        @ '' from api: '') err),
                    \<lparr>ext = s, trace = trace wk @ [CallGet wc (ID (machine lm))]\<rparr>))
          \<or> (\<exists>m s. flapsGet env wc (ID (machine lm)) (ext wk) = (Inr m, s)
                \<and> AllPassing (api env) m
                \<and> y = (None, logHealthCheckStatus lm m (logClearLinesAbove env 1
                          \<lparr>ext = s, trace = trace wk @ [CallGet wc (ID (machine lm))]\<rparr>))))"
        by (rule 1(1))
      define F where "F = (\<lambda>wk :: 's world.
          (\<exists>err s. flapsGet env wc (ID (machine lm)) (ext wk) = (Inl err, s)
             \<and> y = (Some (if errors_Is err Canceled then err
                          else if errors_Is err DeadlineExceeded then
                            Wrapf (''timeout reached waiting for healthchecks to pass for machine ''
                                     @ ID (machine lm) @ '' '') err
                          else Wrapf (''error getting machine '' @ ID (machine lm)
                                        @ '' from api: '') err),
                    \<lparr>ext = s, trace = trace wk @ [CallGet wc (ID (machine lm))]\<rparr>))
          \<or> (\<exists>m s. flapsGet env wc (ID (machine lm)) (ext wk) = (Inr m, s)
                \<and> AllPassing (api env) m
                \<and> y = (None, logHealthCheckStatus lm m (logClearLinesAbove env 1
                          \<lparr>ext = s, trace = trace wk @ [CallGet wc (ID (machine lm))]\<rparr>))))"
      from ex have "\<exists>k wk. roundsNotPassing env wc lm b True (Suc n) k ?w = Some wk \<and> F wk"
        unfolding F_def .
      then obtain k wk where k: "roundsNotPassing env wc lm b True (Suc n) k ?w = Some wk"
        and fin: "F wk"
        by blast
      have "roundsNotPassing env wc lm b p n (Suc k) w = Some wk"
        using get Inr False k by (simp add: call_def)
      with fin have "\<exists>k wk. roundsNotPassing env wc lm b p n k w = Some wk \<and> F wk"
        by blast
      then show ?thesis
        unfolding F_def .
    qed
  qed
qed

lemma poll_returns_stop:
  assumes "WaitForHealthchecksToPass_poll (env :: 's environment) wc lm b p n w = Some y"
  shows "\<exists>k. roundsNotPassing env wc lm b p n (Suc k) w = None"
proof -
  define F where "F = (\<lambda>wk :: 's world.
          (\<exists>err s. flapsGet env wc (ID (machine lm)) (ext wk) = (Inl err, s)
             \<and> y = (Some (if errors_Is err Canceled then err
                          else if errors_Is err DeadlineExceeded then
                            Wrapf (''timeout reached waiting for healthchecks to pass for machine ''
                                     @ ID (machine lm) @ '' '') err
                          else Wrapf (''error getting machine '' @ ID (machine lm)
                                        @ '' from api: '') err),
                    \<lparr>ext = s, trace = trace wk @ [CallGet wc (ID (machine lm))]\<rparr>))
          \<or> (\<exists>m s. flapsGet env wc (ID (machine lm)) (ext wk) = (Inr m, s)
                \<and> AllPassing (api env) m
                \<and> y = (None, logHealthCheckStatus lm m (logClearLinesAbove env 1
                          \<lparr>ext = s, trace = trace wk @ [CallGet wc (ID (machine lm))]\<rparr>))))"
  have "\<exists>k wk. roundsNotPassing env wc lm b p n k w = Some wk \<and> F wk"
    unfolding F_def by (rule poll_returns [OF assms])
  then obtain k wk where rk: "roundsNotPassing env wc lm b p n k w = Some wk" and fin: "F wk"
    by blast
  from fin have "(\<exists>err s. flapsGet env wc (ID (machine lm)) (ext wk) = (Inl err, s))
      \<or> (\<exists>m s. flapsGet env wc (ID (machine lm)) (ext wk) = (Inr m, s) \<and> AllPassing (api env) m)"
    unfolding F_def by (elim disjE exE conjE) (rule disjI1, blast, rule disjI2, blast)
  then have "roundsNotPassing env wc lm b p n (Suc k) w = None"
    using rounds_stop_error [OF rk] rounds_stop_passing [OF rk] by blast
  then show ?thesis ..
qed

lemma poll_diverges:
  "WaitForHealthchecksToPass_poll env wc lm b p n w = None
     \<longleftrightarrow> (\<forall>k. roundsNotPassing env wc lm b p n k w \<noteq> None)"
proof
  assume none: "WaitForHealthchecksToPass_poll env wc lm b p n w = None"
  show "\<forall>k. roundsNotPassing env wc lm b p n k w \<noteq> None"
  proof
    fix k
    show "roundsNotPassing env wc lm b p n k w \<noteq> None"
    proof (induction k)
      case 0
      show ?case by simp
    next
      case (Suc k)
      then obtain wk where rk: "roundsNotPassing env wc lm b p n k w = Some wk" by auto
      have pk: "WaitForHealthchecksToPass_poll env wc lm b (p \<or> 0 < k) (n + k) wk = None"
        using rounds_poll [OF rk] none by simp
      obtain r s where get: "flapsGet env wc (ID (machine lm)) (ext wk) = (r, s)"
        by (cases "flapsGet env wc (ID (machine lm)) (ext wk)") auto
      show ?case
      proof (cases r)
        case (Inl err)
        with get have g: "flapsGet env wc (ID (machine lm)) (ext wk) = (Inl err, s)" by simp
        show ?thesis using pk unfolding poll_fetch_error [OF g] by simp
      next
        case (Inr m)
        with get have g: "flapsGet env wc (ID (machine lm)) (ext wk) = (Inr m, s)" by simp
        show ?thesis
        proof (cases "AllPassing (api env) m")
          case True
          show ?thesis using pk unfolding poll_passing [OF g True] by simp
        next
          case False
          show ?thesis unfolding rounds_next [OF rk g False] by simp
        qed
      qed
    qed
  qed
next
  assume all: "\<forall>k. roundsNotPassing env wc lm b p n k w \<noteq> None"
  show "WaitForHealthchecksToPass_poll env wc lm b p n w = None"
  proof (rule ccontr)
    assume "WaitForHealthchecksToPass_poll env wc lm b p n w \<noteq> None"
    then obtain y where "WaitForHealthchecksToPass_poll env wc lm b p n w = Some y" by auto
    from poll_returns_stop [OF this] all show False by blast
  qed
qed

text \<open>
  C8, as the code has it. For a machine with a configuration: when the checks of the
  configuration are nil, \<^verbatim>\<open>WaitForHealthchecksToPass\<close> returns nil at once and calls
  nothing. Otherwise it runs the polling loop under the child context, with a backoff
  whose minimum is half and whose maximum is twice (in int64) the shortest interval, which
  is at most 120 seconds and at most the interval of every check. At every round, that
  is after any number \<open>k\<close> of rounds in which \<^verbatim>\<open>Get\<close> has answered with checks that do not
  all pass: a \<^verbatim>\<open>Get\<close> that fails ends the wait at that call, with the cancellation as it
  is, and with a deadline and any other error wrapped, so that no failed \<^verbatim>\<open>Get\<close> is
  followed by another; a \<^verbatim>\<open>Get\<close> that answers with all checks passing ends the wait
  with nil, after the status line; a \<^verbatim>\<open>Get\<close> that answers with checks that do not all
  pass is followed by the status line (in the first round, and in every round on an
  interactive terminal), the sleep of the backoff, and the next round. The wait returns in
  no other way: whatever it returns is the result of one of these two ends, and it does
  not return exactly when every round finds checks that do not all pass.
\<close>

theorem WaitForHealthchecksToPass_polls:
  assumes "Config (machine lm) = Some conf"
  shows
    "(Checks conf = None \<longrightarrow>
        WaitForHealthchecksToPass env c timeout lm w = Some (Return None, w))
     \<and> (\<forall>checks. Checks conf = Some checks \<longrightarrow>
           WaitForHealthchecksToPass env c timeout lm w
             = map_option (\<lambda>(r, w1). (Return r, w1))
                 (WaitForHealthchecksToPass_poll env (WithTimeout c timeout) lm
                    (healthBackoff checks) False 0 w)
           \<and> backoffMin (healthBackoff checks) = half (shortestInterval checks)
           \<and> backoffMax (healthBackoff checks) = wrap64 (2 * shortestInterval checks)
           \<and> shortestInterval checks \<le> 120 * Second
           \<and> (\<forall>(name, chk) \<in> set checks. shortestInterval checks \<le> Interval chk)
           \<and> (\<forall>k wk.
                 roundsNotPassing env (WithTimeout c timeout) lm (healthBackoff checks) False 0 k w
                   = Some wk \<longrightarrow>
                 (\<forall>err s.
                     flapsGet env (WithTimeout c timeout) (ID (machine lm)) (ext wk) = (Inl err, s) \<longrightarrow>
                     WaitForHealthchecksToPass env c timeout lm w
                       = Some (Return (Some
                           (if errors_Is err Canceled then err
                            else if errors_Is err DeadlineExceeded then
                              Wrapf (''timeout reached waiting for healthchecks to pass for machine ''
                                       @ ID (machine lm) @ '' '') err
                            else Wrapf (''error getting machine '' @ ID (machine lm)
                                          @ '' from api: '') err)),
                          \<lparr>ext = s, trace = trace wk @ [CallGet (WithTimeout c timeout) (ID (machine lm))]\<rparr>))
                 \<and> (\<forall>m s.
                     flapsGet env (WithTimeout c timeout) (ID (machine lm)) (ext wk) = (Inr m, s)
                       \<and> AllPassing (api env) m \<longrightarrow>
                     WaitForHealthchecksToPass env c timeout lm w
                       = Some (Return None,
                          logHealthCheckStatus lm m (logClearLinesAbove env 1
                            \<lparr>ext = s, trace = trace wk @ [CallGet (WithTimeout c timeout) (ID (machine lm))]\<rparr>)))
                 \<and> (\<forall>m s.
                     flapsGet env (WithTimeout c timeout) (ID (machine lm)) (ext wk) = (Inr m, s)
                       \<and> \<not> AllPassing (api env) m \<longrightarrow>
                     roundsNotPassing env (WithTimeout c timeout) lm (healthBackoff checks) False 0 (Suc k) w
                       = Some (sleep env (healthBackoff checks) k
                           (if k = 0 \<or> isInteractive env then
                              logHealthCheckStatus lm m (logClearLinesAbove env 1
                                \<lparr>ext = s, trace = trace wk @ [CallGet (WithTimeout c timeout) (ID (machine lm))]\<rparr>)
                            else \<lparr>ext = s, trace = trace wk @ [CallGet (WithTimeout c timeout) (ID (machine lm))]\<rparr>))))
           \<and> (\<forall>out.
                 WaitForHealthchecksToPass env c timeout lm w = Some out \<longrightarrow>
                 (\<exists>k (wk :: 's world).
                    roundsNotPassing env (WithTimeout c timeout) lm (healthBackoff checks) False 0 k w
                      = Some wk
                    \<and> ((\<exists>err s.
                           flapsGet env (WithTimeout c timeout) (ID (machine lm)) (ext wk) = (Inl err, s)
                           \<and> out = (Return (Some
                                (if errors_Is err Canceled then err
                            else if errors_Is err DeadlineExceeded then
                              Wrapf (''timeout reached waiting for healthchecks to pass for machine ''
                                       @ ID (machine lm) @ '' '') err
                            else Wrapf (''error getting machine '' @ ID (machine lm)
                                          @ '' from api: '') err)),
                              \<lparr>ext = s, trace = trace wk @ [CallGet (WithTimeout c timeout) (ID (machine lm))]\<rparr>))
                       \<or> (\<exists>m s.
                             flapsGet env (WithTimeout c timeout) (ID (machine lm)) (ext wk) = (Inr m, s)
                             \<and> AllPassing (api env) m
                             \<and> out = (Return None,
                                  logHealthCheckStatus lm m (logClearLinesAbove env 1
                                    \<lparr>ext = s, trace = trace wk @ [CallGet (WithTimeout c timeout) (ID (machine lm))]\<rparr>))))))
           \<and> ((WaitForHealthchecksToPass env c timeout lm w = None) =
                (\<forall>k. roundsNotPassing env (WithTimeout c timeout) lm (healthBackoff checks)
                        False 0 k w \<noteq> None)))"
proof (intro conjI allI impI)
  assume "Checks conf = None"
  with assms show "WaitForHealthchecksToPass env c timeout lm w = Some (Return None, w)"
    by (simp add: WaitForHealthchecksToPass_def)
next
  fix checks assume checks: "Checks conf = Some checks"
  show run: "WaitForHealthchecksToPass env c timeout lm w
             = map_option (\<lambda>(r, w1). (Return r, w1))
                 (WaitForHealthchecksToPass_poll env (WithTimeout c timeout) lm
                    (healthBackoff checks) False 0 w)"
    using assms checks by (simp add: WaitForHealthchecksToPass_def)
  show "backoffMin (healthBackoff checks) = half (shortestInterval checks)"
    by (simp add: healthBackoff_def)
  show "backoffMax (healthBackoff checks) = wrap64 (2 * shortestInterval checks)"
    by (simp add: healthBackoff_def)
  show "shortestInterval checks \<le> 120 * Second"
    by (rule shortestInterval_le)
  show "\<forall>(name, chk) \<in> set checks. shortestInterval checks \<le> Interval chk"
    by (auto dest: shortestInterval_member)
  {
    fix k wk
    assume rk: "roundsNotPassing env (WithTimeout c timeout) lm (healthBackoff checks) False 0 k w
                  = Some wk"
    have pk: "WaitForHealthchecksToPass_poll env (WithTimeout c timeout) lm
                (healthBackoff checks) False 0 w
              = WaitForHealthchecksToPass_poll env (WithTimeout c timeout) lm
                  (healthBackoff checks) (False \<or> 0 < k) (0 + k) wk"
      by (rule rounds_poll [OF rk])
    {
      fix err s
      assume get: "flapsGet env (WithTimeout c timeout) (ID (machine lm)) (ext wk) = (Inl err, s)"
      show "WaitForHealthchecksToPass env c timeout lm w
                       = Some (Return (Some
                           (if errors_Is err Canceled then err
                            else if errors_Is err DeadlineExceeded then
                              Wrapf (''timeout reached waiting for healthchecks to pass for machine ''
                                       @ ID (machine lm) @ '' '') err
                            else Wrapf (''error getting machine '' @ ID (machine lm)
                                          @ '' from api: '') err)),
                          \<lparr>ext = s, trace = trace wk @ [CallGet (WithTimeout c timeout) (ID (machine lm))]\<rparr>)"
        unfolding run pk poll_fetch_error [OF get] by simp
    }
    {
      fix m s
      assume "flapsGet env (WithTimeout c timeout) (ID (machine lm)) (ext wk) = (Inr m, s)
                \<and> AllPassing (api env) m"
      then have get: "flapsGet env (WithTimeout c timeout) (ID (machine lm)) (ext wk) = (Inr m, s)"
        and pass: "AllPassing (api env) m"
        by simp_all
      show "WaitForHealthchecksToPass env c timeout lm w
                       = Some (Return None,
                          logHealthCheckStatus lm m (logClearLinesAbove env 1
                            \<lparr>ext = s, trace = trace wk @ [CallGet (WithTimeout c timeout) (ID (machine lm))]\<rparr>))"
        unfolding run pk poll_passing [OF get pass] by simp
    }
    {
      fix m s
      assume "flapsGet env (WithTimeout c timeout) (ID (machine lm)) (ext wk) = (Inr m, s)
                \<and> \<not> AllPassing (api env) m"
      then have get: "flapsGet env (WithTimeout c timeout) (ID (machine lm)) (ext wk) = (Inr m, s)"
        and np: "\<not> AllPassing (api env) m"
        by simp_all
      show "roundsNotPassing env (WithTimeout c timeout) lm (healthBackoff checks) False 0 (Suc k) w
                       = Some (sleep env (healthBackoff checks) k
                           (if k = 0 \<or> isInteractive env then
                              logHealthCheckStatus lm m (logClearLinesAbove env 1
                                \<lparr>ext = s, trace = trace wk @ [CallGet (WithTimeout c timeout) (ID (machine lm))]\<rparr>)
                            else \<lparr>ext = s, trace = trace wk @ [CallGet (WithTimeout c timeout) (ID (machine lm))]\<rparr>))"
        unfolding rounds_next [OF rk get np] by simp
    }
  }
  {
    fix out
    assume ret: "WaitForHealthchecksToPass env c timeout lm w = Some out"
    then obtain y where poll: "WaitForHealthchecksToPass_poll env (WithTimeout c timeout) lm
                       (healthBackoff checks) False 0 w = Some y"
      and out: "out = (Return (fst y), snd y)"
      unfolding run by (auto split: prod.splits)
    have y: "y = (a, v) \<longleftrightarrow> out = (Return a, v)" for a v
      unfolding out by (cases y) auto
    show "\<exists>k (wk :: 's world).
                    roundsNotPassing env (WithTimeout c timeout) lm (healthBackoff checks) False 0 k w
                      = Some wk
                    \<and> ((\<exists>err s.
                           flapsGet env (WithTimeout c timeout) (ID (machine lm)) (ext wk) = (Inl err, s)
                           \<and> out = (Return (Some
                                (if errors_Is err Canceled then err
                            else if errors_Is err DeadlineExceeded then
                              Wrapf (''timeout reached waiting for healthchecks to pass for machine ''
                                       @ ID (machine lm) @ '' '') err
                            else Wrapf (''error getting machine '' @ ID (machine lm)
                                          @ '' from api: '') err)),
                              \<lparr>ext = s, trace = trace wk @ [CallGet (WithTimeout c timeout) (ID (machine lm))]\<rparr>))
                       \<or> (\<exists>m s.
                             flapsGet env (WithTimeout c timeout) (ID (machine lm)) (ext wk) = (Inr m, s)
                             \<and> AllPassing (api env) m
                             \<and> out = (Return None,
                                  logHealthCheckStatus lm m (logClearLinesAbove env 1
                                    \<lparr>ext = s, trace = trace wk @ [CallGet (WithTimeout c timeout) (ID (machine lm))]\<rparr>))))"
      using poll_returns [OF poll] unfolding y .
  }
  show "(WaitForHealthchecksToPass env c timeout lm w = None) =
                (\<forall>k. roundsNotPassing env (WithTimeout c timeout) lm (healthBackoff checks)
                        False 0 k w \<noteq> None)"
    unfolding run using poll_diverges [of env "WithTimeout c timeout" lm "healthBackoff checks" False 0 w]
    by simp
qed


theorem WaitForHealthchecksToPass_polls_witness:
  "Config (machine (sampleLeased ''m1'')) = Some sampleConfig
   \<and> Checks sampleConfig = None
   \<and> WaitForHealthchecksToPass sampleEnv Ctx (120 * Second) (sampleLeased ''m1'') sampleWorld
       = Some (Return None, sampleWorld)
   \<and> Config (machine sampleChecked)
       = Some (sampleConfig\<lparr>Checks := Some [(''chk-http'', \<lparr>Interval = 10 * Second\<rparr>)]\<rparr>)
   \<and> backoffMin (healthBackoff [(''chk-http'', \<lparr>Interval = 10 * Second\<rparr>)]) = 5 * Second
   \<and> backoffMax (healthBackoff [(''chk-http'', \<lparr>Interval = 10 * Second\<rparr>)]) = 20 * Second
   \<and> flapsGet sampleEnv (WithTimeout Ctx (120 * Second)) (ID (machine sampleChecked))
         \<lparr>clock = 0, tick = 0, failingGets = 1, unhealthyGets = 0\<rparr>
       = (Inl (ErrorNew ''connection reset''), \<lparr>clock = 0, tick = 0, failingGets = 0, unhealthyGets = 0\<rparr>)
   \<and> WaitForHealthchecksToPass sampleEnv Ctx (120 * Second) sampleChecked
        (sampleWorld\<lparr>ext := \<lparr>clock = 0, tick = 0, failingGets = 1, unhealthyGets = 0\<rparr>\<rparr>)
       = Some (Return (Some (Wrapf ''error getting machine m1 from api: ''
                               (ErrorNew ''connection reset''))),
               sampleWorld\<lparr>trace := [CallGet (WithTimeout Ctx (120 * Second)) ''m1'']\<rparr>)
   \<and> roundsNotPassing sampleEnv (WithTimeout Ctx (120 * Second)) sampleChecked
        (healthBackoff [(''chk-http'', \<lparr>Interval = 10 * Second\<rparr>)]) False 0 (Suc 0)
        (sampleWorld\<lparr>ext := \<lparr>clock = 0, tick = 0, failingGets = 1, unhealthyGets = 1\<rparr>\<rparr>)
       = Some \<lparr>ext = \<lparr>clock = 0, tick = 0, failingGets = 1, unhealthyGets = 0\<rparr>,
               trace = [CallGet (WithTimeout Ctx (120 * Second)) ''m1'',
                        Log ''  Waiting for m1 to become healthy'',
                        Sleep (healthBackoff [(''chk-http'', \<lparr>Interval = 10 * Second\<rparr>)]) 0]\<rparr>
   \<and> WaitForHealthchecksToPass sampleEnv Ctx (120 * Second) sampleChecked
        (sampleWorld\<lparr>ext := \<lparr>clock = 0, tick = 0, failingGets = 1, unhealthyGets = 1\<rparr>\<rparr>)
       = Some (Return (Some (Wrapf ''error getting machine m1 from api: ''
                               (ErrorNew ''connection reset''))),
               \<lparr>ext = \<lparr>clock = 0, tick = 0, failingGets = 0, unhealthyGets = 0\<rparr>,
                trace = [CallGet (WithTimeout Ctx (120 * Second)) ''m1'',
                         Log ''  Waiting for m1 to become healthy'',
                         Sleep (healthBackoff [(''chk-http'', \<lparr>Interval = 10 * Second\<rparr>)]) 0,
                         CallGet (WithTimeout Ctx (120 * Second)) ''m1'']\<rparr>)
   \<and> WaitForHealthchecksToPass sampleEnv Ctx (120 * Second) sampleChecked
        (sampleWorld\<lparr>ext := \<lparr>clock = 0, tick = 0, failingGets = 0, unhealthyGets = 1\<rparr>\<rparr>)
       = Some (Return None,
               \<lparr>ext = \<lparr>clock = 0, tick = 0, failingGets = 0, unhealthyGets = 0\<rparr>,
                trace = [CallGet (WithTimeout Ctx (120 * Second)) ''m1'',
                         Log ''  Waiting for m1 to become healthy'',
                         Sleep (healthBackoff [(''chk-http'', \<lparr>Interval = 10 * Second\<rparr>)]) 0,
                         CallGet (WithTimeout Ctx (120 * Second)) ''m1'',
                         Log ''  Waiting for m1 to become healthy'']\<rparr>)"
proof -
  let ?wc = "WithTimeout Ctx (120 * Second)"
  let ?checks = "[(''chk-http'', \<lparr>Interval = 10 * Second\<rparr>)]"
  let ?b = "healthBackoff ?checks"
  let ?w1 = "\<lparr>ext = \<lparr>clock = 0, tick = 0, failingGets = 1, unhealthyGets = 0\<rparr>,
               trace = [CallGet ?wc ''m1'', Log ''  Waiting for m1 to become healthy'',
                        Sleep ?b 0]\<rparr>"
  let ?v1 = "\<lparr>ext = \<lparr>clock = 0, tick = 0, failingGets = 0, unhealthyGets = 0\<rparr>,
               trace = [CallGet ?wc ''m1'', Log ''  Waiting for m1 to become healthy'',
                        Sleep ?b 0]\<rparr>"
  have a: "Config (machine (sampleLeased ''m1'')) = Some sampleConfig"
    by (simp add: sampleLeased_def sampleMachine_def)
  have b: "Config (machine sampleChecked) = Some (sampleConfig\<lparr>Checks := Some ?checks\<rparr>)"
    by (simp add: sampleChecked_def sampleMachine_def NewLeasableMachine_def)
  have id: "ID (machine sampleChecked) = ''m1''"
    by (simp add: sampleChecked_def sampleMachine_def NewLeasableMachine_def)
  have none: "Checks sampleConfig = None"
    by (simp add: sampleConfig_def)
  have some: "Checks (sampleConfig\<lparr>Checks := Some ?checks\<rparr>) = Some ?checks"
    by simp
  have get0: "flapsGet sampleEnv ?wc (ID (machine sampleChecked))
         (ext (sampleWorld\<lparr>ext := \<lparr>clock = 0, tick = 0, failingGets = 1, unhealthyGets = 0\<rparr>\<rparr>))
       = (Inl (ErrorNew ''connection reset''),
          \<lparr>clock = 0, tick = 0, failingGets = 0, unhealthyGets = 0\<rparr>)"
    by (simp add: sampleEnv_sel)
  have r0: "roundsNotPassing sampleEnv ?wc sampleChecked ?b False 0 0 wx = Some wx" for wx
    by simp
  have r1: "roundsNotPassing sampleEnv ?wc sampleChecked ?b False 0 (Suc 0)
        (sampleWorld\<lparr>ext := \<lparr>clock = 0, tick = 0, failingGets = 1, unhealthyGets = 1\<rparr>\<rparr>)
       = Some ?w1"
    by (simp add: id call_def sleep_def logHealthCheckStatus_def logClearLinesAbove_def emit_def
          sampleEnv_sel sampleApi_def sampleWorld_def)
  have r2: "roundsNotPassing sampleEnv ?wc sampleChecked ?b False 0 (Suc 0)
        (sampleWorld\<lparr>ext := \<lparr>clock = 0, tick = 0, failingGets = 0, unhealthyGets = 1\<rparr>\<rparr>)
       = Some ?v1"
    by (simp add: id call_def sleep_def logHealthCheckStatus_def logClearLinesAbove_def emit_def
          sampleEnv_sel sampleApi_def sampleWorld_def)
  have get1: "flapsGet sampleEnv ?wc (ID (machine sampleChecked)) (ext ?w1)
       = (Inl (ErrorNew ''connection reset''),
          \<lparr>clock = 0, tick = 0, failingGets = 0, unhealthyGets = 0\<rparr>)"
    by (simp add: sampleEnv_sel)
  have get2: "flapsGet sampleEnv ?wc (ID (machine sampleChecked)) (ext ?v1)
       = (Inr (sampleMachine ''m1''),
          \<lparr>clock = 0, tick = 0, failingGets = 0, unhealthyGets = 0\<rparr>)
       \<and> AllPassing (api sampleEnv) (sampleMachine ''m1'')"
    by (simp add: id sampleEnv_sel sampleApi_def sampleMachine_def)
  note t1 = WaitForHealthchecksToPass_polls [OF a, where env = sampleEnv and c = Ctx
      and timeout = "120 * Second" and w = sampleWorld, THEN conjunct1, rule_format, OF none]
  note t2 = WaitForHealthchecksToPass_polls [OF b, where env = sampleEnv and c = Ctx
      and timeout = "120 * Second", THEN conjunct2, rule_format, OF some]
  note rounds = t2 [THEN conjunct2, THEN conjunct2, THEN conjunct2, THEN conjunct2,
      THEN conjunct2, THEN conjunct1, rule_format]
  have min: "backoffMin ?b = 5 * Second"
    using t2 [of sampleWorld] by (simp add: half_def shortestInterval_def Second_def)
  have max: "backoffMax ?b = 20 * Second"
    using t2 [of sampleWorld] by (simp add: wrap64_def shortestInterval_def Second_def)
  have fail0: "WaitForHealthchecksToPass sampleEnv Ctx (120 * Second) sampleChecked
        (sampleWorld\<lparr>ext := \<lparr>clock = 0, tick = 0, failingGets = 1, unhealthyGets = 0\<rparr>\<rparr>)
       = Some (Return (Some (Wrapf ''error getting machine m1 from api: ''
                               (ErrorNew ''connection reset''))),
               sampleWorld\<lparr>trace := [CallGet ?wc ''m1'']\<rparr>)"
    using rounds [OF r0, THEN conjunct1, rule_format, OF get0]
    by (simp add: id sampleWorld_def)
  have fail1: "WaitForHealthchecksToPass sampleEnv Ctx (120 * Second) sampleChecked
        (sampleWorld\<lparr>ext := \<lparr>clock = 0, tick = 0, failingGets = 1, unhealthyGets = 1\<rparr>\<rparr>)
       = Some (Return (Some (Wrapf ''error getting machine m1 from api: ''
                               (ErrorNew ''connection reset''))),
               \<lparr>ext = \<lparr>clock = 0, tick = 0, failingGets = 0, unhealthyGets = 0\<rparr>,
                trace = [CallGet ?wc ''m1'', Log ''  Waiting for m1 to become healthy'',
                         Sleep ?b 0, CallGet ?wc ''m1'']\<rparr>)"
    using rounds [OF r1, THEN conjunct1, rule_format, OF get1]
    by (simp add: id)
  have pass1: "WaitForHealthchecksToPass sampleEnv Ctx (120 * Second) sampleChecked
        (sampleWorld\<lparr>ext := \<lparr>clock = 0, tick = 0, failingGets = 0, unhealthyGets = 1\<rparr>\<rparr>)
       = Some (Return None,
               \<lparr>ext = \<lparr>clock = 0, tick = 0, failingGets = 0, unhealthyGets = 0\<rparr>,
                trace = [CallGet ?wc ''m1'', Log ''  Waiting for m1 to become healthy'',
                         Sleep ?b 0, CallGet ?wc ''m1'',
                         Log ''  Waiting for m1 to become healthy'']\<rparr>)"
    using rounds [OF r2, THEN conjunct2, THEN conjunct1, rule_format, OF get2]
    by (simp add: id logHealthCheckStatus_def logClearLinesAbove_def emit_def sampleEnv_sel)
  have get0': "flapsGet sampleEnv ?wc (ID (machine sampleChecked))
         \<lparr>clock = 0, tick = 0, failingGets = 1, unhealthyGets = 0\<rparr>
       = (Inl (ErrorNew ''connection reset''),
          \<lparr>clock = 0, tick = 0, failingGets = 0, unhealthyGets = 0\<rparr>)"
    using get0 by simp
  show ?thesis
    using a b none t1 min max get0' fail0 r1 fail1 pass1 by (intro conjI)
qed



text \<open>
  C8, as the claim has it, fails: a \<^verbatim>\<open>Get\<close> that fails once with an error that is
  neither a cancellation nor a deadline, and that would succeed with all checks passing
  at the next call, is not retried. The wait returns the error wrapped after the one call.
\<close>

theorem WaitForHealthchecksToPass_no_retry:
  "WaitForHealthchecksToPass sampleEnv Ctx (120 * Second) sampleChecked
     (sampleWorld\<lparr>ext := \<lparr>clock = 0, tick = 0, failingGets = 1, unhealthyGets = 0\<rparr>\<rparr>)
   = Some (Return (Some (Wrapf ''error getting machine m1 from api: ''
                           (ErrorNew ''connection reset''))),
           sampleWorld\<lparr>trace := [CallGet (WithTimeout Ctx (120 * Second)) ''m1'']\<rparr>)
   \<and> \<not> errors_Is (ErrorNew ''connection reset'') Canceled
   \<and> \<not> errors_Is (ErrorNew ''connection reset'') DeadlineExceeded
   \<and> flapsGet sampleEnv (WithTimeout Ctx (120 * Second)) ''m1'' (ext sampleWorld)
       = (Inr (sampleMachine ''m1''), ext sampleWorld)
   \<and> AllPassing (api sampleEnv) (sampleMachine ''m1'')"
  by (simp add: WaitForHealthchecksToPass_def sampleChecked_def
        poll_fetch_error [where err = "ErrorNew ''connection reset''"
          and s = "\<lparr>clock = 0, tick = 0, failingGets = 0, unhealthyGets = 0\<rparr>"]
        sample_defs sampleApi_def)




section \<open>Properties of the rollout\<close>

lemma resolve_keeps:
  assumes "resolveUpdatedMachineConfig a md processGroup origMachineRaw w
             = (Return (launchInput, orig, md1), w1)"
  shows "\<exists>e. md1 = md\<lparr>appConfigEnv := e\<rparr>"
  using assms
  by (auto simp: resolveUpdatedMachineConfig_def Let_def
           split: option.splits if_splits intro: exI [of _ "appConfigEnv md"])

lemma waitForMachine_immediate:
  "strategy md = ''immediate'' \<Longrightarrow> waitForMachine env c md m w = Some (Return None, w)"
  by (simp add: waitForMachine_def)

lemma updateMachines_immediate:
  "strategy md = ''immediate'' \<Longrightarrow>
   \<exists>r md' w'. updateMachines env c order md w = Some (r, md', w') \<and> (\<forall>e. r \<noteq> Return (Some e))
      \<and> strategy md' = ''immediate''"
proof (induction order arbitrary: md w)
  case Nil
  then show ?case by simp
next
  case (Cons i later)
  show ?case
  proof (cases "i < length (machineSet md)")
    case False
    then show ?thesis using Cons.IH [OF Cons.prems, of w] by simp
  next
    case True
    obtain r w1 where res: "resolveUpdatedMachineConfig (api env) md (MachineProcessGroupApp (api env))
                (Some (machine (machineSet md ! i))) w = (r, w1)"
      by (cases "resolveUpdatedMachineConfig (api env) md (MachineProcessGroupApp (api env))
                (Some (machine (machineSet md ! i))) w") auto
    show ?thesis
    proof (cases r)
      case (Panic p)
      then show ?thesis using True res Cons.prems by simp
    next
      case (Return x)
      obtain launchInput orig md1 where x: "x = (launchInput, orig, md1)"
        by (cases x) auto
      obtain updated m w2 where upd:
        "Update env c launchInput ((machineSet md ! i)\<lparr>machine := orig\<rparr>)
           (emit (Log (''  Updating '' @ ID orig)) w1) = (updated, m, w2)"
        by (cases "Update env c launchInput ((machineSet md ! i)\<lparr>machine := orig\<rparr>)
           (emit (Log (''  Updating '' @ ID orig)) w1)") auto
      from res Return x resolve_keeps obtain e where md1: "md1 = md\<lparr>appConfigEnv := e\<rparr>"
        by blast
      let ?md2 = "md1\<lparr>machineSet := (machineSet md1)[i := m]\<rparr>"
      let ?w3 = "case updated of None \<Rightarrow> w2
                 | Some err \<Rightarrow> emit (LogError ''Continuing after error'' err) w2"
      have imm: "strategy ?md2 = ''immediate''"
        using Cons.prems md1 by simp
      have step: "updateMachines env c (i # later) md w = updateMachines env c later ?md2 ?w3"
        using True res Return x upd imm
        by (simp add: waitForMachine_immediate Let_def del: updateMachines.simps(2))
           (simp add: waitForMachine_immediate Let_def)
      show ?thesis
        unfolding step by (rule Cons.IH [OF imm])
    qed
  qed
qed

text \<open>
  C4. A round of the update loop, at a member whose configuration resolves and whose
  \<^verbatim>\<open>Update\<close> returns an error. Under the strategy "immediate" the error is logged
  ("Continuing after error") and the loop goes on with the members that follow, from the
  world the failed update has left; the loop as a whole then returns, and what it returns
  is never an error. Under any other strategy the loop returns that error at once: the
  world is the one the failed update has left, so nothing is called for a later member,
  and the set of the deployment differs from the one before the round at most in the
  member of the round.
\<close>

theorem updateMachines_update_error:
  assumes "i < length (machineSet md)"
    and "resolveUpdatedMachineConfig (api env) md (MachineProcessGroupApp (api env))
           (Some (machine (machineSet md ! i))) w = (Return (launchInput, orig, md1), w1)"
    and "Update env c launchInput ((machineSet md ! i)\<lparr>machine := orig\<rparr>)
           (emit (Log (''  Updating '' @ ID orig)) w1) = (Some err, m, w2)"
  shows "(strategy md = ''immediate'' \<longrightarrow>
            updateMachines env c (i # later) md w
              = updateMachines env c later (md1\<lparr>machineSet := (machineSet md)[i := m]\<rparr>)
                  (emit (LogError ''Continuing after error'' err) w2)
            \<and> (\<exists>r md' w'. updateMachines env c (i # later) md w = Some (r, md', w')
                  \<and> (\<forall>e. r \<noteq> Return (Some e))))
         \<and> (strategy md \<noteq> ''immediate'' \<longrightarrow>
              updateMachines env c (i # later) md w
                = Some (Return (Some err), md1\<lparr>machineSet := (machineSet md)[i := m]\<rparr>, w2))
         \<and> machineSet md1 = machineSet md"
proof -
  from assms(2) resolve_keeps obtain e where md1: "md1 = md\<lparr>appConfigEnv := e\<rparr>"
    by blast
  have same: "machineSet md1 = machineSet md"
    by (simp add: md1)
  have imm: "strategy md = ''immediate'' \<Longrightarrow>
        updateMachines env c (i # later) md w
              = updateMachines env c later (md1\<lparr>machineSet := (machineSet md)[i := m]\<rparr>)
                  (emit (LogError ''Continuing after error'' err) w2)"
    using assms by (simp add: md1 waitForMachine_immediate Let_def)
  have total: "strategy md = ''immediate'' \<Longrightarrow>
        \<exists>r md' w'. updateMachines env c (i # later) md w = Some (r, md', w')
                  \<and> (\<forall>e. r \<noteq> Return (Some e))"
    using updateMachines_immediate [of md env c "i # later" w] by blast
  have abort: "strategy md \<noteq> ''immediate'' \<Longrightarrow>
        updateMachines env c (i # later) md w
                = Some (Return (Some err), md1\<lparr>machineSet := (machineSet md)[i := m]\<rparr>, w2)"
    using assms by (simp add: md1 Let_def)
  show ?thesis
    using imm total abort same by blast
qed


lemmas sample_run =
  sampleEnv_sel sampleWorld_def sampleLeased_def sampleMachine_def sampleInput_def
  sampleConfig_def NewLeasableMachine_def time_Unix_def wrap64_def unixToInternal_def
  zeroTime_def Second_def Millisecond_def

lemmas run_defs =
  resolveUpdatedMachineConfig_def Update_def HasLease_def now_def call_def emit_def
  waitForMachine_def sampleFleet_def sampleDeployment_def updatedIDs_def Let_def
  lookupEnv_def emptyMachineConfig_def

lemma run_immediate:
  "map_option (\<lambda>(r, md, w). (r, updatedIDs (trace w)))
     (updateMachines sampleEnv Ctx [0, 1, 2] (sampleFleet ''immediate'') sampleWorld)
   = Some (Return None, [''m1'', ''m2'', ''m3''])"
  by (simp add: run_defs sample_run)

lemma WaitForState_sample:
  "WaitForState sampleEnv c st t lm w =
     Some (None, w\<lparr>trace := trace w @ [Log (''  Waiting for '' @ ID (machine lm) @ '' to have state: '' @ st),
        CallWait (WithTimeout c t) (ID (machine lm)) st t,
        Log (''  Machine '' @ ID (machine lm) @ '' has state: '' @ st)]\<rparr>)"
  unfolding WaitForState_def
  by (subst WaitForState_poll.simps)
     (simp add: sampleEnv_sel call_def logStatusFinished_def logStatusWaiting_def
        logClearLinesAbove_def emit_def)

lemma run_rolling:
  "map_option (\<lambda>(r, md, w). (r, updatedIDs (trace w)))
     (updateMachines sampleEnv Ctx [0, 1, 2] (sampleFleet ''rolling'') sampleWorld)
   = Some (Return (Some (ErrorNew ''machine is busy'')), [''m1'', ''m2''])"
  apply (simp add: run_defs sample_run WaitForState_sample
      WaitForHealthchecksToPass_def healthBackoff_def)
  apply (subst WaitForHealthchecksToPass_poll.simps)
  apply (simp add: run_defs sample_run sampleApi_def logHealthCheckStatus_def
        logClearLinesAbove_def WaitForState_sample)
  done


lemma sample_resolve_m2:
  "\<exists>launchInput orig.
     resolveUpdatedMachineConfig (api sampleEnv) (sampleFleet s)
       (MachineProcessGroupApp (api sampleEnv))
       (Some (machine (machineSet (sampleFleet s) ! 1))) sampleWorld
     = (Return (launchInput, orig,
                (sampleFleet s)\<lparr>appConfigEnv := Some [''PRIMARY_REGION'' \<mapsto> ''ams'']\<rparr>),
        sampleWorld)
     \<and> InputID launchInput = ''m2'' \<and> ID orig = ''m2''"
  by (simp add: run_defs sample_run)

theorem updateMachines_update_error_witness:
  "1 < length (machineSet (sampleFleet ''rolling''))
   \<and> map_option (\<lambda>(r, md, w). (r, updatedIDs (trace w)))
        (updateMachines sampleEnv Ctx [1, 2] (sampleFleet ''rolling'') sampleWorld)
       = Some (Return (Some (ErrorNew ''machine is busy'')), [''m2''])
   \<and> map_option (\<lambda>(r, md, w). (r, updatedIDs (trace w)))
        (updateMachines sampleEnv Ctx [1, 2] (sampleFleet ''immediate'') sampleWorld)
       = Some (Return None, [''m2'', ''m3''])
   \<and> map_option (\<lambda>(r, md, w). (r, updatedIDs (trace w)))
        (updateMachines sampleEnv Ctx [0, 1, 2] (sampleFleet ''rolling'') sampleWorld)
       = Some (Return (Some (ErrorNew ''machine is busy'')), [''m1'', ''m2''])
   \<and> map_option (\<lambda>(r, md, w). (r, updatedIDs (trace w)))
        (updateMachines sampleEnv Ctx [0, 1, 2] (sampleFleet ''immediate'') sampleWorld)
       = Some (Return None, [''m1'', ''m2'', ''m3''])"
proof -
  have len: "1 < length (machineSet (sampleFleet s))" for s
    by (simp add: sampleFleet_def)
  have rolling: "map_option (\<lambda>(r, md, w). (r, updatedIDs (trace w)))
        (updateMachines sampleEnv Ctx [1, 2] (sampleFleet ''rolling'') sampleWorld)
       = Some (Return (Some (ErrorNew ''machine is busy'')), [''m2''])"
  proof -
    from sample_resolve_m2 [of "''rolling''"] obtain launchInput orig where
      res: "resolveUpdatedMachineConfig (api sampleEnv) (sampleFleet ''rolling'')
              (MachineProcessGroupApp (api sampleEnv))
              (Some (machine (machineSet (sampleFleet ''rolling'') ! 1))) sampleWorld
            = (Return (launchInput, orig,
                 (sampleFleet ''rolling'')\<lparr>appConfigEnv := Some [''PRIMARY_REGION'' \<mapsto> ''ams'']\<rparr>),
               sampleWorld)"
      and ids: "InputID launchInput = ''m2''" "ID orig = ''m2''"
      by blast
    have upd: "Update sampleEnv Ctx launchInput
                 ((machineSet (sampleFleet ''rolling'') ! 1)\<lparr>machine := orig\<rparr>)
                 (emit (Log (''  Updating '' @ ID orig)) sampleWorld)
               = (Some (ErrorNew ''machine is busy''),
                  (machineSet (sampleFleet ''rolling'') ! 1)\<lparr>machine := orig\<rparr>,
                  sampleWorld\<lparr>trace := [Log ''  Updating m2'',
                                          CallUpdate Ctx launchInput ''nonce-m2'']\<rparr>)"
      using ids by (simp add: run_defs sample_run)
    have "strategy (sampleFleet ''rolling'') \<noteq> ''immediate''"
      by (simp add: sampleFleet_def)
    with updateMachines_update_error [OF len res upd, of "[2]"] show ?thesis
      using ids by (simp add: updatedIDs_def)
  qed
  have immediate: "map_option (\<lambda>(r, md, w). (r, updatedIDs (trace w)))
        (updateMachines sampleEnv Ctx [1, 2] (sampleFleet ''immediate'') sampleWorld)
       = Some (Return None, [''m2'', ''m3''])"
  proof -
    from sample_resolve_m2 [of "''immediate''"] obtain launchInput orig where
      res: "resolveUpdatedMachineConfig (api sampleEnv) (sampleFleet ''immediate'')
              (MachineProcessGroupApp (api sampleEnv))
              (Some (machine (machineSet (sampleFleet ''immediate'') ! 1))) sampleWorld
            = (Return (launchInput, orig,
                 (sampleFleet ''immediate'')\<lparr>appConfigEnv := Some [''PRIMARY_REGION'' \<mapsto> ''ams'']\<rparr>),
               sampleWorld)"
      and ids: "InputID launchInput = ''m2''" "ID orig = ''m2''"
      by blast
    have upd: "Update sampleEnv Ctx launchInput
                 ((machineSet (sampleFleet ''immediate'') ! 1)\<lparr>machine := orig\<rparr>)
                 (emit (Log (''  Updating '' @ ID orig)) sampleWorld)
               = (Some (ErrorNew ''machine is busy''),
                  (machineSet (sampleFleet ''immediate'') ! 1)\<lparr>machine := orig\<rparr>,
                  sampleWorld\<lparr>trace := [Log ''  Updating m2'',
                                          CallUpdate Ctx launchInput ''nonce-m2'']\<rparr>)"
      using ids by (simp add: run_defs sample_run)
    have "strategy (sampleFleet ''immediate'') = ''immediate''"
      by (simp add: sampleFleet_def)
    with updateMachines_update_error [OF len res upd, of "[2]"] have step:
      "updateMachines sampleEnv Ctx [1, 2] (sampleFleet ''immediate'') sampleWorld
       = updateMachines sampleEnv Ctx [2]
           ((sampleFleet ''immediate'')
              \<lparr>appConfigEnv := Some [''PRIMARY_REGION'' \<mapsto> ''ams''],
               machineSet := (machineSet (sampleFleet ''immediate''))
                 [1 := (machineSet (sampleFleet ''immediate'') ! 1)\<lparr>machine := orig\<rparr>]\<rparr>)
           (emit (LogError ''Continuing after error'' (ErrorNew ''machine is busy''))
              (sampleWorld\<lparr>trace := [Log ''  Updating m2'',
                                      CallUpdate Ctx launchInput ''nonce-m2'']\<rparr>))"
      by simp
    have rest: "map_option (\<lambda>(r, md, w). (r, updatedIDs (trace w)))
        (updateMachines sampleEnv Ctx [2]
           ((sampleFleet ''immediate'')
              \<lparr>appConfigEnv := Some [''PRIMARY_REGION'' \<mapsto> ''ams''],
               machineSet := (machineSet (sampleFleet ''immediate''))
                 [1 := (machineSet (sampleFleet ''immediate'') ! 1)\<lparr>machine := orig\<rparr>]\<rparr>)
           (emit (LogError ''Continuing after error'' (ErrorNew ''machine is busy''))
              (sampleWorld\<lparr>trace := [Log ''  Updating m2'',
                                      CallUpdate Ctx launchInput ''nonce-m2'']\<rparr>)))
       = Some (Return None, [''m2'', ''m3''])"
      using ids(1) by (simp add: run_defs sample_run)
    show ?thesis
      unfolding step by (rule rest)
  qed
  show ?thesis
    using len [of "''rolling''"] rolling immediate run_rolling run_immediate
    by simp
qed



section \<open>Properties of the release command\<close>

lemma extends_refl [simp]: "extends P w w"
  by (simp add: extends_def)

lemma extends_trans: "extends P w w1 \<Longrightarrow> extends P w1 w2 \<Longrightarrow> extends P w w2"
  by (auto simp: extends_def)

lemma extends_emit: "P e \<Longrightarrow> extends P w (emit e w)"
  by (simp add: extends_def emit_def)

lemma extends_emit': "P e \<Longrightarrow> extends P w w1 \<Longrightarrow> extends P w (emit e w1)"
  by (auto simp: extends_def emit_def)

lemma extends_call: "P e \<Longrightarrow> extends P w (snd (call e f w))"
  by (simp add: extends_def call_def split: prod.splits)

lemma extends_now: "extends P w (snd (now env w))"
  by (simp add: extends_def now_def split: prod.splits)

lemma extends_HasLease: "extends P w (snd (HasLease env lm w))"
  by (simp add: extends_def)

lemma extends_sleep: "P (Sleep b n) \<Longrightarrow> extends P w (sleep env b n w)"
  by (simp add: extends_def sleep_def)

lemma extends_logClear: "P (ClearLinesAbove n) \<Longrightarrow> extends P w (logClearLinesAbove env n w)"
  by (simp add: logClearLinesAbove_def extends_emit)

lemma extends_warnAll: "(\<And>err. P (LogError msg err)) \<Longrightarrow> extends P w (warnAll msg errs w)"
  unfolding warnAll_def
proof (induction errs arbitrary: w)
  case Nil
  show ?case by simp
next
  case (Cons a errs)
  have "extends P w (emit (LogError msg a) w)"
    by (rule extends_emit) (rule Cons.prems)
  moreover have "extends P (emit (LogError msg a) w)
                   (fold (\<lambda>err. emit (LogError msg err)) errs (emit (LogError msg a) w))"
    by (rule Cons.IH) (rule Cons.prems)
  ultimately show ?case
    by (simp add: extends_trans)
qed

lemma spares_simps [simp]:
  "spares ids (CallUpdate c input nonce) = (InputID input \<in> ids)"
  "spares ids (CallAcquireLease c i d) = (i \<in> ids)"
  "spares ids (CallLaunch c input) = False"
  "spares ids (CallGet c i) = True"
  "spares ids (CallWait c i st d) = True"
  "spares ids (CallReleaseLease c i nonce) = True"
  "spares ids (Sleep b n) = True"
  "spares ids (ClearLinesAbove n) = True"
  "spares ids (Log msg) = True"
  "spares ids (LogError msg err) = True"
  by (simp_all add: spares_def)

lemma Update_spares:
  "InputID input \<in> ids \<Longrightarrow> extends (spares ids) w (snd (snd (Update env c input lm w)))"
  by (auto simp: Update_def extends_def call_def HasLease_def now_def
           split: prod.splits bool.splits sum.splits if_splits)

lemma AcquireLease_spares:
  "ID (machine lm) \<in> ids \<Longrightarrow>
   extends (spares ids) w (snd (snd (AcquireLease env c d lm w)))
   \<and> machine (fst (snd (AcquireLease env c d lm w))) = machine lm"
  by (auto simp: AcquireLease_def extends_def call_def HasLease_def now_def
           split: prod.splits bool.splits sum.splits if_splits option.splits)

lemma ReleaseLease_spares:
  "extends (spares ids) w (snd (snd (ReleaseLease env c lm w)))
   \<and> machine (fst (snd (ReleaseLease env c lm w))) = machine lm"
  by (auto simp: ReleaseLease_def extends_def call_def emit_def HasLease_def now_def resetLease_def
           split: prod.splits bool.splits sum.splits if_splits option.splits)

lemma fanOut_spares:
  assumes f: "\<And>m w. Q m \<Longrightarrow> extends P w (snd (snd (f m w))) \<and> Q (fst (snd (f m w)))"
    and "list_all Q ms"
  shows "extends P w (snd (snd (fanOut f order ms w)))
         \<and> list_all Q (fst (snd (fanOut f order ms w)))"
  using assms(2)
proof (induction order arbitrary: ms w)
  case Nil
  then show ?case by simp
next
  case (Cons i order)
  show ?case
  proof (cases "i < length ms")
    case False
    then show ?thesis using Cons.IH [OF Cons.prems, of w] by simp
  next
    case True
    obtain r m w1 where step: "f (ms ! i) w = (r, m, w1)"
      by (cases "f (ms ! i) w") auto
    from True Cons.prems have "Q (ms ! i)"
      by (simp add: list_all_length)
    from f [OF this, of w] step have ext1: "extends P w w1" and qm: "Q m"
      by simp_all
    have "list_all Q (ms[i := m])"
      using Cons.prems qm True by (auto simp: list_all_length nth_list_update)
    from Cons.IH [OF this, of w1] ext1 True step show ?thesis
      by (auto simp: extends_trans split: prod.splits)
  qed
qed

lemma ReleaseLeases_spares:
  assumes "list_all (\<lambda>m. ID (machine m) \<in> known) ms"
  shows "extends (spares ids) w (snd (snd (ReleaseLeases env c ms w)))
         \<and> list_all (\<lambda>m. ID (machine m) \<in> known) (fst (snd (ReleaseLeases env c ms w)))"
proof -
  let ?canceled = "case ctxErr env c (ext w) of None \<Rightarrow> False | Some e \<Rightarrow> errors_Is e Canceled"
  let ?c1 = "if ?canceled then TodoWithTimeout (500 * Millisecond) else c"
  let ?w1 = "if ?canceled then
               emit (Log ''detected canceled context and allowing 500ms to release machine leases'') w
             else w"
  have w1: "extends (spares ids) w ?w1"
    by (simp add: extends_emit)
  have fan: "extends (spares ids) ?w1
               (snd (snd (fanOut (ReleaseLease env ?c1) (schedule env (length ms) (ext ?w1)) ms ?w1)))
             \<and> list_all (\<lambda>m. ID (machine m) \<in> known)
                 (fst (snd (fanOut (ReleaseLease env ?c1) (schedule env (length ms) (ext ?w1)) ms ?w1)))"
    by (rule fanOut_spares [OF _ assms]) (simp add: ReleaseLease_spares)
  obtain results ms' w2 where res:
    "fanOut (ReleaseLease env ?c1) (schedule env (length ms) (ext ?w1)) ms ?w1 = (results, ms', w2)"
    by (cases "fanOut (ReleaseLease env ?c1) (schedule env (length ms) (ext ?w1)) ms ?w1") auto
  from fan res have w2: "extends (spares ids) ?w1 w2"
    and q: "list_all (\<lambda>m. ID (machine m) \<in> known) ms'"
    by simp_all
  have "extends (spares ids) w2 (warnAll ''failed to release lease'' errs w2)" for errs
    by (rule extends_warnAll) simp
  with w1 w2 have "extends (spares ids) w (warnAll ''failed to release lease'' errs w2)" for errs
    by (blast intro: extends_trans)
  with q res show ?thesis
    by (simp add: ReleaseLeases_def Let_def)
qed

lemma AcquireLeases_spares:
  assumes "list_all (\<lambda>m. ID (machine m) \<in> ids) ms"
  shows "extends (spares ids) w (snd (snd (AcquireLeases env c d ms w)))
         \<and> list_all (\<lambda>m. ID (machine m) \<in> ids) (fst (snd (AcquireLeases env c d ms w)))"
proof -
  have fan: "extends (spares ids) w
               (snd (snd (fanOut (AcquireLease env c d) (schedule env (length ms) (ext w)) ms w)))
             \<and> list_all (\<lambda>m. ID (machine m) \<in> ids)
                 (fst (snd (fanOut (AcquireLease env c d) (schedule env (length ms) (ext w)) ms w)))"
    by (rule fanOut_spares [OF _ assms]) (simp add: AcquireLease_spares)
  obtain results ms1 w1 where res:
    "fanOut (AcquireLease env c d) (schedule env (length ms) (ext w)) ms w = (results, ms1, w1)"
    by (cases "fanOut (AcquireLease env c d) (schedule env (length ms) (ext w)) ms w") auto
  from fan res have w1: "extends (spares ids) w w1"
    and q: "list_all (\<lambda>m. ID (machine m) \<in> ids) ms1"
    by simp_all
  let ?w2 = "warnAll ''failed to acquire lease'' (List.map_filter id results) w1"
  have "extends (spares ids) w1 ?w2"
    by (rule extends_warnAll) simp
  with w1 have w2: "extends (spares ids) w ?w2"
    by (rule extends_trans)
  obtain rel ms2 w3 where rl: "ReleaseLeases env c ms1 ?w2 = (rel, ms2, w3)"
    by (cases "ReleaseLeases env c ms1 ?w2") auto
  from ReleaseLeases_spares [OF q, where w = ?w2 and env = env and c = c and ids = ids] rl have
    w3: "extends (spares ids) ?w2 w3" and q2: "list_all (\<lambda>m. ID (machine m) \<in> ids) ms2"
    by simp_all
  from w2 w3 have w3': "extends (spares ids) w w3"
    by (rule extends_trans)
  then have "extends (spares ids) w
               (case rel of None \<Rightarrow> w3
                | Some err \<Rightarrow> emit (LogError ''error releasing machine leases'' err) w3)"
    by (auto split: option.splits intro: extends_emit')
  with res rl q q2 w2 show ?thesis
    by (auto simp: AcquireLeases_def Let_def)
qed


lemma ReleaseLeases_extends:
  "extends (spares ids) w (snd (snd (ReleaseLeases env c ms w)))"
  using ReleaseLeases_spares [where known = UNIV and ms = ms and ids = ids and w = w
      and env = env and c = c]
  by (simp add: list_all_iff)

lemma WaitForState_poll_spares:
  "WaitForState_poll env wc lm desiredState timeout b n w = Some y \<Longrightarrow>
   extends (spares ids) w (snd y)"
proof (induction rule: WaitForState_poll.raw_induct [rotated 1, consumes 1])
  case (1 poll env wc lm desiredState timeout b n w y)
  obtain r w1 where c: "call (CallWait wc (ID (machine lm)) desiredState timeout)
             (flapsWait env wc (machine lm) desiredState timeout) w = (r, w1)"
    by (cases "call (CallWait wc (ID (machine lm)) desiredState timeout)
             (flapsWait env wc (machine lm) desiredState timeout) w") auto
  have w1: "extends (spares ids) w w1"
    using extends_call [of "spares ids" "CallWait wc (ID (machine lm)) desiredState timeout"
        w "flapsWait env wc (machine lm) desiredState timeout"] c by simp
  show ?case
  proof (cases r)
    case None
    have "snd y = logStatusFinished lm desiredState (logClearLinesAbove env 1 w1)"
      using 1(2) unfolding c None by auto
    moreover have "extends (spares ids) w1
                     (logStatusFinished lm desiredState (logClearLinesAbove env 1 w1))"
      by (auto simp: logStatusFinished_def intro!: extends_emit' extends_logClear)
    ultimately show ?thesis using w1 by (auto intro: extends_trans)
  next
    case (Some err)
    show ?thesis
    proof (cases "errors_Is err Canceled \<or> errors_Is err DeadlineExceeded")
      case True
      have "snd y = w1"
        using 1(2) True unfolding c Some by (auto split: if_splits)
      with w1 show ?thesis by simp
    next
      case False
      have "poll env wc lm desiredState timeout b (Suc n) (sleep env b n w1) = Some y"
        using 1(2) False unfolding c Some by simp
      from 1(1) [OF this] have "extends (spares ids) (sleep env b n w1) (snd y)" .
      moreover have "extends (spares ids) w1 (sleep env b n w1)"
        by (rule extends_sleep) simp
      ultimately show ?thesis using w1 by (blast intro: extends_trans)
    qed
  qed
qed

lemma WaitForState_spares:
  assumes "WaitForState env c desiredState timeout lm w = Some y"
  shows "extends (spares ids) w (snd y)"
proof -
  let ?w0 = "logStatusWaiting lm desiredState (logClearLinesAbove env 1 w)"
  have "extends (spares ids) w ?w0"
    by (auto simp: logStatusWaiting_def intro!: extends_emit' extends_logClear)
  moreover have "extends (spares ids) ?w0 (snd y)"
    using assms unfolding WaitForState_def by (rule WaitForState_poll_spares)
  ultimately show ?thesis by (rule extends_trans)
qed

lemma WaitForEventTypeAfterType_poll_spares:
  "WaitForEventTypeAfterType_poll env wc lm eventType1 eventType2 b n w = Some y \<Longrightarrow>
   extends (spares ids) w (snd y)"
proof (induction rule: WaitForEventTypeAfterType_poll.raw_induct [rotated 1, consumes 1])
  case (1 poll env wc lm eventType1 eventType2 b n w y)
  obtain r w1 where c: "call (CallGet wc (ID (machine lm))) (flapsGet env wc (ID (machine lm))) w
                          = (r, w1)"
    by (cases "call (CallGet wc (ID (machine lm))) (flapsGet env wc (ID (machine lm))) w") auto
  have w1: "extends (spares ids) w w1"
    using extends_call [of "spares ids" "CallGet wc (ID (machine lm))" w
        "flapsGet env wc (ID (machine lm))"] c by simp
  show ?case
  proof (cases r)
    case (Inl err)
    have "snd y = w1"
      using 1(2) unfolding c Inl by (auto split: if_splits)
    with w1 show ?thesis by simp
  next
    case (Inr updateMachine)
    show ?thesis
    proof (cases "GetLatestEventOfTypeAfterType (api env) updateMachine eventType1 eventType2")
      case (Some ev)
      have "snd y = w1"
        using 1(2) Some unfolding c Inr by auto
      with w1 show ?thesis by simp
    next
      case None
      have "poll env wc lm eventType1 eventType2 b (Suc n) (sleep env b n w1) = Some y"
        using 1(2) None unfolding c Inr by simp
      from 1(1) [OF this] have "extends (spares ids) (sleep env b n w1) (snd y)" .
      moreover have "extends (spares ids) w1 (sleep env b n w1)"
        by (rule extends_sleep) simp
      ultimately show ?thesis using w1 by (blast intro: extends_trans)
    qed
  qed
qed

lemma WaitForEventTypeAfterType_spares:
  assumes "WaitForEventTypeAfterType env c eventType1 eventType2 timeout lm w = Some y"
  shows "extends (spares ids) w (snd y)"
proof -
  let ?w0 = "emit (Log (''  Waiting for '' @ ID (machine lm) @ '' to get '' @ eventType1 @ '' event''))
               (logClearLinesAbove env 1 w)"
  have "extends (spares ids) w ?w0"
    by (auto intro!: extends_emit' extends_logClear)
  moreover have "extends (spares ids) ?w0 (snd y)"
    using assms unfolding WaitForEventTypeAfterType_def
    by (rule WaitForEventTypeAfterType_poll_spares)
  ultimately show ?thesis by (rule extends_trans)
qed

lemma resolve_spares:
  "extends (spares ids) w (snd (resolveUpdatedMachineConfig a md processGroup origMachineRaw w))"
  by (auto simp: resolveUpdatedMachineConfig_def Let_def extends_emit split: option.splits)

lemma resolve_ids:
  assumes "resolveUpdatedMachineConfig a md processGroup (Some orig0) w
             = (Return (launchInput, orig, md1), w1)"
  shows "InputID launchInput = ID orig0 \<and> ID orig = ID orig0"
  using assms
  by (auto simp: resolveUpdatedMachineConfig_def Let_def split: option.splits if_splits)

lemma configure_keeps:
  assumes "configureLaunchInputForReleaseCommand a md launchInput = Return (launchInput1, md1)"
  shows "InputID launchInput1 = InputID launchInput \<and> (\<exists>e. md1 = md\<lparr>appConfigEnv := e\<rparr>)"
  using assms
  by (auto simp: configureLaunchInputForReleaseCommand_def Let_def
           split: option.splits if_splits intro: exI [of _ "appConfigEnv md"])

lemma createReleaseCommandMachine_spares:
  "extends (spares ids) w (snd (snd (createReleaseCommandMachine env c md w)))
   \<and> machineSet (fst (snd (createReleaseCommandMachine env c md w))) = machineSet md"
  by (simp add: createReleaseCommandMachine_def resolveUpdatedMachineConfig_def)

lemma updateUnderLease_spares:
  assumes "list_all (\<lambda>m. ID (machine m) \<in> ids) members" and "InputID input \<in> ids"
  shows "extends (spares ids) w (snd (snd (updateUnderLease env c md input members w)))
         \<and> machineSet (fst (snd (updateUnderLease env c md input members w))) = machineSet md"
proof -
  obtain acquired members1 w1 where acq:
    "AcquireLeases env c (leaseTimeout md) members w = (acquired, members1, w1)"
    by (cases "AcquireLeases env c (leaseTimeout md) members w") auto
  from AcquireLeases_spares [OF assms(1), of w env c "leaseTimeout md"] acq
  have w1: "extends (spares ids) w w1" by simp
  obtain result members2 w2 where mid:
    "(case acquired of
        Some err \<Rightarrow> (Some err, members1, w1)
      | None \<Rightarrow>
          (case Update env c input (members1 ! 0) w1 of
             (updated, m, w2) \<Rightarrow>
               (map_option (Wrapf ''error updating release_command machine: '') updated,
                members1[0 := m], w2))) = (result, members2, w2)"
    by (cases "(case acquired of
        Some err \<Rightarrow> (Some err, members1, w1)
      | None \<Rightarrow>
          (case Update env c input (members1 ! 0) w1 of
             (updated, m, w2) \<Rightarrow>
               (map_option (Wrapf ''error updating release_command machine: '') updated,
                members1[0 := m], w2)))") auto
  have w2: "extends (spares ids) w1 w2"
  proof (cases acquired)
    case (Some err)
    with mid show ?thesis by simp
  next
    case None
    with mid have "w2 = snd (snd (Update env c input (members1 ! 0) w1))"
      by (auto split: prod.splits)
    then show ?thesis using Update_spares [OF assms(2)] by simp
  qed
  have w3: "extends (spares ids) w2 (snd (snd (ReleaseLeases env c members2 w2)))"
    by (rule ReleaseLeases_extends)
  from w1 w2 w3 have "extends (spares ids) w (snd (snd (ReleaseLeases env c members2 w2)))"
    by (blast intro: extends_trans)
  then show ?thesis
    using acq mid by (auto simp: updateUnderLease_def split: prod.splits)
qed


lemma updateReleaseCommandMachine_spares:
  assumes ids: "list_all (\<lambda>m. ID (machine m) \<in> ids) (releaseCommandMachine md)"
    and run: "updateReleaseCommandMachine env c md w = Some (r, md', w')"
  shows "extends (spares ids) w w' \<and> machineSet md' = machineSet md"
proof (cases "releaseCommand md = []")
  case True
  with run show ?thesis by (simp add: updateReleaseCommandMachine_def)
next
  case cmd: False
  show ?thesis
  proof (cases "releaseCommandMachine md")
    case Nil
    with run cmd show ?thesis by (simp add: updateReleaseCommandMachine_def)
  next
    case (Cons releaseCmdMachine others)
    let ?w0 = "emit (Log (''  Updating release_command machine ''
                            @ ID (machine releaseCmdMachine))) w"
    from ids Cons have rid: "ID (machine releaseCmdMachine) \<in> ids"
      and oids: "list_all (\<lambda>m. ID (machine m) \<in> ids) others"
      by simp_all
    from run cmd Cons obtain stopped w1 where
      wait: "WaitForState env c (MachineStateStopped (api env)) (waitTimeout md)
               releaseCmdMachine ?w0 = Some (stopped, w1)"
      by (auto simp: updateReleaseCommandMachine_def bind_eq_Some_conv)
    have w0: "extends (spares ids) w ?w0"
      by (simp add: extends_emit)
    from WaitForState_spares [OF wait] have "extends (spares ids) ?w0 w1" by simp
    with w0 have w1: "extends (spares ids) w w1" by (rule extends_trans)
    show ?thesis
    proof (cases stopped)
      case (Some err)
      with run cmd Cons wait w1 show ?thesis
        by (simp add: updateReleaseCommandMachine_def)
    next
      case None
      obtain rr w2 where res:
        "resolveUpdatedMachineConfig (api env) md (MachineProcessGroupReleaseCommand (api env))
           (Some (machine releaseCmdMachine)) w1 = (rr, w2)"
        by (cases "resolveUpdatedMachineConfig (api env) md
                     (MachineProcessGroupReleaseCommand (api env))
                     (Some (machine releaseCmdMachine)) w1") auto
      from resolve_spares [of ids w1 "api env" md "MachineProcessGroupReleaseCommand (api env)"
          "Some (machine releaseCmdMachine)"] res
      have "extends (spares ids) w1 w2" by simp
      with w1 have w2: "extends (spares ids) w w2" by (rule extends_trans)
      show ?thesis
      proof (cases rr)
        case (Panic p)
        with run cmd Cons wait None res w2 show ?thesis
          by (simp add: updateReleaseCommandMachine_def)
      next
        case (Return x)
        obtain updatedConfig orig md1 where x: "x = (updatedConfig, orig, md1)"
          by (cases x) auto
        from res Return x resolve_ids have
          oid: "InputID updatedConfig = ID (machine releaseCmdMachine)"
               "ID orig = ID (machine releaseCmdMachine)"
          by blast+
        from res Return x resolve_keeps obtain e where md1: "md1 = md\<lparr>appConfigEnv := e\<rparr>"
          by blast
        show ?thesis
        proof (cases "configureLaunchInputForReleaseCommand (api env) md1 updatedConfig")
          case (Panic p)
          with run cmd Cons wait None res Return x have "md' = md1 \<and> w' = w2"
            by (simp add: updateReleaseCommandMachine_def)
          with w2 md1 show ?thesis by simp
        next
          case conf: (Return y)
          obtain updatedConfig1 md2 where y: "y = (updatedConfig1, md2)"
            by (cases y) auto
          from conf y configure_keeps obtain e2 where
            cid: "InputID updatedConfig1 = InputID updatedConfig"
            and md2: "md2 = md1\<lparr>appConfigEnv := e2\<rparr>"
            by blast
          let ?orig1 = "if restartOnly md then orig\<lparr>Config := InputConfig updatedConfig1\<rparr>
                        else orig"
          let ?members = "releaseCmdMachine\<lparr>machine := ?orig1\<rparr> # others"
          have mids: "list_all (\<lambda>m. ID (machine m) \<in> ids) ?members"
            using rid oids oid by simp
          have iid: "InputID updatedConfig1 \<in> ids"
            using cid oid rid by simp
          from updateUnderLease_spares [OF mids iid, of w2 env c md2]
          have under: "extends (spares ids) w2
                         (snd (snd (updateUnderLease env c md2 updatedConfig1 ?members w2)))"
            and keep: "machineSet (fst (snd (updateUnderLease env c md2 updatedConfig1
                                               ?members w2))) = machineSet md2"
            by simp_all
          obtain result md3 w3 where u:
            "updateUnderLease env c md2 updatedConfig1 ?members w2 = (result, md3, w3)"
            by (cases "updateUnderLease env c md2 updatedConfig1 ?members w2") auto
          from under u w2 have w3: "extends (spares ids) w w3"
            by (auto intro: extends_trans)
          from keep u md2 md1 have m3: "machineSet md3 = machineSet md"
            by simp
          from run cmd Cons wait None res Return x conf y u have "md' = md3 \<and> w' = w3"
            by (simp add: updateReleaseCommandMachine_def Let_def)
          with w3 m3 show ?thesis by simp
        qed
      qed
    qed
  qed
qed

lemma createOrUpdateReleaseCmdMachine_spares:
  assumes "list_all (\<lambda>m. ID (machine m) \<in> ids) (releaseCommandMachine md)"
    and "createOrUpdateReleaseCmdMachine env c md w = Some (r, md', w')"
  shows "extends (spares ids) w w' \<and> machineSet md' = machineSet md"
proof (cases "IsEmpty (releaseCommandMachine md)")
  case True
  with assms(2) createReleaseCommandMachine_spares [of ids w env c md] show ?thesis
    by (auto simp: createOrUpdateReleaseCmdMachine_def)
next
  case False
  with assms(2) have "updateReleaseCommandMachine env c md w = Some (r, md', w')"
    by (simp add: createOrUpdateReleaseCmdMachine_def)
  from updateReleaseCommandMachine_spares [OF assms(1) this] show ?thesis .
qed

lemma releaseCommandExitCode_spares:
  assumes ids: "list_all (\<lambda>m. ID (machine m) \<in> ids) (releaseCommandMachine md)"
    and run: "releaseCommandExitCode env c md w = Some (r, md', w')"
  shows "extends (spares ids) w w' \<and> machineSet md' = machineSet md"
proof -
  let ?w0 = "emit (Log (''Running '' @ appName md @ '' release_command: '' @ releaseCommand md)) w"
  from run obtain created md1 w1 where
    cr: "createOrUpdateReleaseCmdMachine env c md ?w0 = Some (created, md1, w1)"
    by (auto simp: releaseCommandExitCode_def bind_eq_Some_conv)
  have "extends (spares ids) w ?w0" by (simp add: extends_emit)
  with createOrUpdateReleaseCmdMachine_spares [OF ids cr]
  have w1: "extends (spares ids) w w1" and m1: "machineSet md1 = machineSet md"
    by (auto intro: extends_trans)
  note run' = run [unfolded releaseCommandExitCode_def cr, simplified]
  show ?thesis
  proof (cases created)
    case (Panic p)
    with run' w1 m1 show ?thesis by simp
  next
    case (Return e)
    show ?thesis
    proof (cases e)
      case (Some err)
      with run' Return w1 m1 show ?thesis by simp
    next
      case None
      show ?thesis
      proof (cases "releaseCommandMachine md1")
        case Nil
        with run' Return None w1 m1 show ?thesis by simp
      next
        case (Cons releaseCmdMachine others)
        from run' Return None Cons obtain started w2 where
          st: "WaitForState env c (MachineStateStarted (api env)) (waitTimeout md1)
                 releaseCmdMachine w1 = Some (started, w2)"
          by (auto simp: bind_eq_Some_conv)
        from WaitForState_spares [OF st] w1 have w2: "extends (spares ids) w w2"
          by (auto intro: extends_trans)
        note run2 = run' [unfolded Return None Cons, simplified, unfolded st, simplified]
        show ?thesis
        proof (cases started)
          case (Some err)
          with run2 w2 m1 show ?thesis by simp
        next
          case started: None
          from run2 started obtain stopped w3 where
            sp: "WaitForState env c (MachineStateStopped (api env)) (waitTimeout md1)
                   releaseCmdMachine w2 = Some (stopped, w3)"
            by (auto simp: bind_eq_Some_conv)
          from WaitForState_spares [OF sp] w2 have w3: "extends (spares ids) w w3"
            by (auto intro: extends_trans)
          note run3 = run2 [unfolded started, simplified, unfolded sp, simplified]
          show ?thesis
          proof (cases stopped)
            case (Some err)
            with run3 w3 m1 show ?thesis by simp
          next
            case stopped: None
            from run3 stopped obtain lastExitEvent w4 where
              ev: "WaitForEventTypeAfterType env c ''exit'' ''start'' (waitTimeout md1)
                     releaseCmdMachine w3 = Some (lastExitEvent, w4)"
              by (auto simp: bind_eq_Some_conv)
            from WaitForEventTypeAfterType_spares [OF ev] w3 have w4: "extends (spares ids) w w4"
              by (auto intro: extends_trans)
            note run4 = run3 [unfolded stopped, simplified, unfolded ev, simplified]
            from run4 have "md' = md1 \<and> w' = w4"
              by (auto split: sum.splits)
            with w4 m1 show ?thesis by simp
          qed
        qed
      qed
    qed
  qed
qed


text \<open>
  C1. A deployment with a release command, a release command machine and restart-only mode
  off, whose release command phase gets as far as reading the exit code of the machine,
  and reads a code that is not zero: \<^verbatim>\<open>DeployMachinesApp\<close> returns the error "release
  command failed - aborting deployment" around the error that names the machine and the
  code. The deployment and the world it leaves are those of the release command phase,
  with the message of the failure: nothing is called afterwards, so no lease is acquired on
  the app machine set and no app machine is updated. The app machine set is the one
  before the call. Within the phase no machine is launched, and every update and every
  lease acquisition is that of a member of the release command machine set.
\<close>

theorem release_command_failure_aborts:
  assumes "releaseCommand md \<noteq> []" and "\<not> IsEmpty (releaseCommandMachine md)"
    and "\<not> restartOnly md"
    and "releaseCommandExitCode env c md w
           = Some (Return (Inr (releaseCmdMachine, exitCode)), md1, w1)"
    and "exitCode \<noteq> 0"
  shows "DeployMachinesApp env c md w
           = Some (Return (Some (Wrapf ''release command failed - aborting deployment. ''
                     (ErrorNew (''error release_command machine ''
                        @ ID (machine releaseCmdMachine)
                        @ '' exited with non-zero status of '' @ Itoa exitCode)))),
                   md1,
                   emit (Log (''Error release_command failed running on machine ''
                                @ ID (machine releaseCmdMachine) @ '' with exit code ''
                                @ Itoa exitCode)) w1)
         \<and> machineSet md1 = machineSet md
         \<and> extends (spares (ID ` machine ` set (releaseCommandMachine md))) w
               (emit (Log (''Error release_command failed running on machine ''
                            @ ID (machine releaseCmdMachine) @ '' with exit code ''
                            @ Itoa exitCode)) w1)"
proof -
  let ?ids = "ID ` machine ` set (releaseCommandMachine md)"
  have ids: "list_all (\<lambda>m. ID (machine m) \<in> ?ids) (releaseCommandMachine md)"
    by (simp add: list_all_iff)
  from releaseCommandExitCode_spares [OF ids assms(4)]
  have w1: "extends (spares ?ids) w w1" and same: "machineSet md1 = machineSet md"
    by simp_all
  have run: "runReleaseCommand env c md w
      = Some (Return (Some (ErrorNew (''error release_command machine ''
                        @ ID (machine releaseCmdMachine)
                        @ '' exited with non-zero status of '' @ Itoa exitCode))),
              md1,
              emit (Log (''Error release_command failed running on machine ''
                           @ ID (machine releaseCmdMachine) @ '' with exit code ''
                           @ Itoa exitCode)) w1)"
    using assms by (simp add: runReleaseCommand_def)
  have deploy: "DeployMachinesApp env c md w
           = Some (Return (Some (Wrapf ''release command failed - aborting deployment. ''
                     (ErrorNew (''error release_command machine ''
                        @ ID (machine releaseCmdMachine)
                        @ '' exited with non-zero status of '' @ Itoa exitCode)))),
                   md1,
                   emit (Log (''Error release_command failed running on machine ''
                                @ ID (machine releaseCmdMachine) @ '' with exit code ''
                                @ Itoa exitCode)) w1)"
    unfolding DeployMachinesApp_def run by simp
  have "extends (spares ?ids) w
               (emit (Log (''Error release_command failed running on machine ''
                            @ ID (machine releaseCmdMachine) @ '' with exit code ''
                            @ Itoa exitCode)) w1)"
    using w1 by (rule extends_emit' [rotated]) simp
  with deploy same show ?thesis by simp
qed


lemma Itoa_7: "Itoa 7 = ''7''"
  by code_simp


lemma WaitForEventTypeAfterType_sample:
  "failingGets (ext w) = 0 \<Longrightarrow> unhealthyGets (ext w) = 0 \<Longrightarrow>
   WaitForEventTypeAfterType sampleEnv c ''exit'' ''start'' t lm w =
     Some (Inr \<lparr>EventType = ''exit'',
                ExitCode = Inr (if ID (machine lm) = ''rc7'' then 7 else 0)\<rparr>,
           w\<lparr>trace := trace w @ [Log (''  Waiting for '' @ ID (machine lm) @ '' to get exit event''),
                CallGet (WithTimeout c t) (ID (machine lm))]\<rparr>)"
  unfolding WaitForEventTypeAfterType_def
  by (subst WaitForEventTypeAfterType_poll.simps)
     (simp add: sampleEnv_sel call_def sampleApi_def sampleMachine_def
        logClearLinesAbove_def emit_def)

lemma sample_exit_code:
  "\<exists>m md1 w1. releaseCommandExitCode sampleEnv Ctx sampleRelease sampleWorld
       = Some (Return (Inr (m, 7)), md1, w1)
     \<and> ID (machine m) = ''rc7'' \<and> updatedIDs (trace w1) = [''rc7'']"
  by (simp add: releaseCommandExitCode_def createOrUpdateReleaseCmdMachine_def IsEmpty_def
        updateReleaseCommandMachine_def updateUnderLease_def AcquireLeases_def ReleaseLeases_def
        AcquireLease_def ReleaseLease_def resetLease_def warnAll_def List.map_filter_def
        configureLaunchInputForReleaseCommand_def time_Sub_def minDuration_def maxDuration_def
        sampleRelease_def WaitForState_sample WaitForEventTypeAfterType_sample
        run_defs sample_run sampleApi_def)



theorem release_command_failure_aborts_witness:
  "releaseCommand sampleRelease \<noteq> []
   \<and> \<not> IsEmpty (releaseCommandMachine sampleRelease)
   \<and> \<not> restartOnly sampleRelease
   \<and> map_option (\<lambda>(r, md, w). (r, updatedIDs (trace w), map (\<lambda>m. ID (machine m)) (machineSet md)))
        (DeployMachinesApp sampleEnv Ctx sampleRelease sampleWorld)
       = Some (Return (Some (Wrapf ''release command failed - aborting deployment. ''
                 (ErrorNew ''error release_command machine rc7 exited with non-zero status of 7''))),
               [''rc7''], [''m1'', ''m2'', ''m3''])"
proof -
  from sample_exit_code obtain m md1 w1 where
    run: "releaseCommandExitCode sampleEnv Ctx sampleRelease sampleWorld
            = Some (Return (Inr (m, 7)), md1, w1)"
    and m: "ID (machine m) = ''rc7''" and upd: "updatedIDs (trace w1) = [''rc7'']"
    by blast
  have a: "releaseCommand sampleRelease \<noteq> []"
    and b: "\<not> IsEmpty (releaseCommandMachine sampleRelease)"
    and c: "\<not> restartOnly sampleRelease"
    by (simp_all add: sampleRelease_def sampleDeployment_def IsEmpty_def)
  have ms: "map (\<lambda>m. ID (machine m)) (machineSet sampleRelease) = [''m1'', ''m2'', ''m3'']"
    by (simp add: sampleRelease_def sampleDeployment_def sampleMachine_def NewLeasableMachine_def)
  from release_command_failure_aborts [OF a b c run] m upd ms a b c show ?thesis
    by (simp add: Itoa_7 updatedIDs_def emit_def)
qed


end
